theory Spec2Isabelle
  imports Complex_Main
begin

section \<open>mathutils: vectors and 4x4 matrices\<close>

text \<open>
  The script computes with \<^verbatim>\<open>mathutils.Matrix\<close> (4x4) and \<^verbatim>\<open>mathutils.Vector\<close> (3D).
  Entries are modelled as reals and sums and products are exact: the rounding of single
  precision in a sum or a product is outside this development. What rounding decides outright
  is left open: whether a matrix has an inverse, and which matrix \<^verbatim>\<open>inverted()\<close> returns, is
  a function of the script's environment (\<open>matrix_inverted\<close> below), about which nothing is
  assumed. \<open>mRC\<close> is the entry in row \<open>R\<close>, column \<open>C\<close>.
\<close>

datatype vec3 = Vector (vx: real) (vy: real) (vz: real)

datatype mat4 = Mat4
  (m00: real) (m01: real) (m02: real) (m03: real)
  (m10: real) (m11: real) (m12: real) (m13: real)
  (m20: real) (m21: real) (m22: real) (m23: real)
  (m30: real) (m31: real) (m32: real) (m33: real)

datatype py_error = ValueError | KeyError

text \<open>\<^verbatim>\<open>a - b\<close> and \<^verbatim>\<open>a + b\<close> on vectors.\<close>

definition vsub :: "vec3 \<Rightarrow> vec3 \<Rightarrow> vec3" where
  "vsub a b = Vector (vx a - vx b) (vy a - vy b) (vz a - vz b)"

definition vadd :: "vec3 \<Rightarrow> vec3 \<Rightarrow> vec3" where
  "vadd a b = Vector (vx a + vx b) (vy a + vy b) (vz a + vz b)"

text \<open>Assignments \<^verbatim>\<open>v.x = a\<close>, \<^verbatim>\<open>v.y = a\<close>, \<^verbatim>\<open>v.z = a\<close>.\<close>

definition set_x :: "vec3 \<Rightarrow> real \<Rightarrow> vec3" where
  "set_x v a = Vector a (vy v) (vz v)"

definition set_y :: "vec3 \<Rightarrow> real \<Rightarrow> vec3" where
  "set_y v a = Vector (vx v) a (vz v)"

definition set_z :: "vec3 \<Rightarrow> real \<Rightarrow> vec3" where
  "set_z v a = Vector (vx v) (vy v) a"

text \<open>\<^verbatim>\<open>m.translation\<close>: the first three entries of the last column, readable and assignable.\<close>

definition translation :: "mat4 \<Rightarrow> vec3" where
  "translation a = Vector (m03 a) (m13 a) (m23 a)"

definition set_translation :: "mat4 \<Rightarrow> vec3 \<Rightarrow> mat4" where
  "set_translation a v = Mat4
     (m00 a) (m01 a) (m02 a) (vx v)
     (m10 a) (m11 a) (m12 a) (vy v)
     (m20 a) (m21 a) (m22 a) (vz v)
     (m30 a) (m31 a) (m32 a) (m33 a)"

text \<open>\<^verbatim>\<open>a @ b\<close>.\<close>

definition matmul :: "mat4 \<Rightarrow> mat4 \<Rightarrow> mat4" where
  "matmul a b = Mat4
     (m00 a * m00 b + m01 a * m10 b + m02 a * m20 b + m03 a * m30 b)
     (m00 a * m01 b + m01 a * m11 b + m02 a * m21 b + m03 a * m31 b)
     (m00 a * m02 b + m01 a * m12 b + m02 a * m22 b + m03 a * m32 b)
     (m00 a * m03 b + m01 a * m13 b + m02 a * m23 b + m03 a * m33 b)
     (m10 a * m00 b + m11 a * m10 b + m12 a * m20 b + m13 a * m30 b)
     (m10 a * m01 b + m11 a * m11 b + m12 a * m21 b + m13 a * m31 b)
     (m10 a * m02 b + m11 a * m12 b + m12 a * m22 b + m13 a * m32 b)
     (m10 a * m03 b + m11 a * m13 b + m12 a * m23 b + m13 a * m33 b)
     (m20 a * m00 b + m21 a * m10 b + m22 a * m20 b + m23 a * m30 b)
     (m20 a * m01 b + m21 a * m11 b + m22 a * m21 b + m23 a * m31 b)
     (m20 a * m02 b + m21 a * m12 b + m22 a * m22 b + m23 a * m32 b)
     (m20 a * m03 b + m21 a * m13 b + m22 a * m23 b + m23 a * m33 b)
     (m30 a * m00 b + m31 a * m10 b + m32 a * m20 b + m33 a * m30 b)
     (m30 a * m01 b + m31 a * m11 b + m32 a * m21 b + m33 a * m31 b)
     (m30 a * m02 b + m31 a * m12 b + m32 a * m22 b + m33 a * m32 b)
     (m30 a * m03 b + m31 a * m13 b + m32 a * m23 b + m33 a * m33 b)"

text \<open>
  Inversion in exact arithmetic: the adjugate divided by the determinant, and no inverse when
  the determinant is zero. It is the matrix library of the concrete runs below; the script
  itself is modelled for any library.
\<close>

definition det3 :: "real \<Rightarrow> real \<Rightarrow> real \<Rightarrow> real \<Rightarrow> real \<Rightarrow> real \<Rightarrow> real \<Rightarrow> real \<Rightarrow> real \<Rightarrow> real" where
  "det3 a b c d e f g h i = a * (e * i - f * h) - b * (d * i - f * g) + c * (d * h - e * g)"

definition determinant :: "mat4 \<Rightarrow> real" where
  "determinant a =
     m00 a * det3 (m11 a) (m12 a) (m13 a) (m21 a) (m22 a) (m23 a) (m31 a) (m32 a) (m33 a)
   - m01 a * det3 (m10 a) (m12 a) (m13 a) (m20 a) (m22 a) (m23 a) (m30 a) (m32 a) (m33 a)
   + m02 a * det3 (m10 a) (m11 a) (m13 a) (m20 a) (m21 a) (m23 a) (m30 a) (m31 a) (m33 a)
   - m03 a * det3 (m10 a) (m11 a) (m12 a) (m20 a) (m21 a) (m22 a) (m30 a) (m31 a) (m32 a)"

definition adjugate :: "mat4 \<Rightarrow> mat4" where
  "adjugate a = Mat4
     (det3 (m11 a) (m12 a) (m13 a) (m21 a) (m22 a) (m23 a) (m31 a) (m32 a) (m33 a))
     (- det3 (m01 a) (m02 a) (m03 a) (m21 a) (m22 a) (m23 a) (m31 a) (m32 a) (m33 a))
     (det3 (m01 a) (m02 a) (m03 a) (m11 a) (m12 a) (m13 a) (m31 a) (m32 a) (m33 a))
     (- det3 (m01 a) (m02 a) (m03 a) (m11 a) (m12 a) (m13 a) (m21 a) (m22 a) (m23 a))
     (- det3 (m10 a) (m12 a) (m13 a) (m20 a) (m22 a) (m23 a) (m30 a) (m32 a) (m33 a))
     (det3 (m00 a) (m02 a) (m03 a) (m20 a) (m22 a) (m23 a) (m30 a) (m32 a) (m33 a))
     (- det3 (m00 a) (m02 a) (m03 a) (m10 a) (m12 a) (m13 a) (m30 a) (m32 a) (m33 a))
     (det3 (m00 a) (m02 a) (m03 a) (m10 a) (m12 a) (m13 a) (m20 a) (m22 a) (m23 a))
     (det3 (m10 a) (m11 a) (m13 a) (m20 a) (m21 a) (m23 a) (m30 a) (m31 a) (m33 a))
     (- det3 (m00 a) (m01 a) (m03 a) (m20 a) (m21 a) (m23 a) (m30 a) (m31 a) (m33 a))
     (det3 (m00 a) (m01 a) (m03 a) (m10 a) (m11 a) (m13 a) (m30 a) (m31 a) (m33 a))
     (- det3 (m00 a) (m01 a) (m03 a) (m10 a) (m11 a) (m13 a) (m20 a) (m21 a) (m23 a))
     (- det3 (m10 a) (m11 a) (m12 a) (m20 a) (m21 a) (m22 a) (m30 a) (m31 a) (m32 a))
     (det3 (m00 a) (m01 a) (m02 a) (m20 a) (m21 a) (m22 a) (m30 a) (m31 a) (m32 a))
     (- det3 (m00 a) (m01 a) (m02 a) (m10 a) (m11 a) (m12 a) (m30 a) (m31 a) (m32 a))
     (det3 (m00 a) (m01 a) (m02 a) (m10 a) (m11 a) (m12 a) (m20 a) (m21 a) (m22 a))"

definition identity :: mat4 where
  "identity = Mat4 1 0 0 0  0 1 0 0  0 0 1 0  0 0 0 1"

definition smul :: "real \<Rightarrow> mat4 \<Rightarrow> mat4" where
  "smul c a = Mat4
     (c * m00 a) (c * m01 a) (c * m02 a) (c * m03 a)
     (c * m10 a) (c * m11 a) (c * m12 a) (c * m13 a)
     (c * m20 a) (c * m21 a) (c * m22 a) (c * m23 a)
     (c * m30 a) (c * m31 a) (c * m32 a) (c * m33 a)"

definition exact_inverse :: "mat4 \<Rightarrow> mat4" where
  "exact_inverse a = smul (1 / determinant a) (adjugate a)"

definition exact_inverted :: "mat4 \<Rightarrow> mat4 option" where
  "exact_inverted a = (if determinant a = 0 then None else Some (exact_inverse a))"

text \<open>
  \<^verbatim>\<open>m.inverted()\<close> without a fallback, for an environment whose matrix library returns
  \<open>minv m\<close>: the matrix the library computes, or \<^verbatim>\<open>ValueError\<close> ("matrix does not have an
  inverse") when the library finds none.
\<close>

definition inverted :: "(mat4 \<Rightarrow> mat4 option) \<Rightarrow> mat4 \<Rightarrow> py_error + mat4" where
  "inverted minv a = (case minv a of None \<Rightarrow> Inl ValueError | Some b \<Rightarrow> Inr b)"

section \<open>The script's configuration and the host it runs in\<close>

text \<open>
  The CONFIGURATION block of the script; \<open>default_config\<close> holds the values the file
  ships with.
\<close>

record config =
  EMPTY_NAME :: string
  FRAME_END :: int
  FIX_X :: bool
  FIX_Y :: bool
  FIX_Z :: bool

definition default_config :: config where
  "default_config = \<lparr>EMPTY_NAME = ''Empty'', FRAME_END = 100,
     FIX_X = True, FIX_Y = True, FIX_Z = True\<rparr>"

text \<open>Objects and pose bones are referred to by their names.\<close>

type_synonym object = string

type_synonym pose_bone = string

text \<open>
  What the script prints or shows. The texts are Japanese in the source; each kind of line
  is a constructor carrying the values formatted into it. \<open>Rule\<close> is the line of 52
  equals signs, \<open>Done\<close> the completion message (printed, then shown in the popup).
\<close>

datatype message =
    ErrEmptyNotFound string
  | ErrNotArmature
  | ErrNoPoseBone
  | ErrFrameRange int int
  | Rule
  | InfoBone string
  | InfoArmature string
  | InfoRotMode string
  | InfoRange int int
  | InfoAxes string
  | InfoPhase1
  | InfoReference vec3
  | InfoPhase2
  | Done int int int

text \<open>
  Every call the script makes into the host, in order. A read carries the matrix it
  returned, a write the matrix it assigned.
\<close>

datatype event =
    FrameSet int
  | ViewLayerUpdate
  | ReadMatrixWorld object mat4
  | ReadBoneMatrix pose_bone mat4
  | WriteBoneMatrix pose_bone mat4
  | KeyframeInsert pose_bone string int
  | Print message
  | PopupMenu message

text \<open>
  The environment (\<^verbatim>\<open>bpy\<close>, and the inversion of \<^verbatim>\<open>mathutils\<close>) is not part of the
  repository. The host's data other than the current frame is a value of an arbitrary type
  \<open>'h\<close>; the record below gives the queries the script makes on it, what each of the
  script's writes does to it, and what the matrix library returns for \<^verbatim>\<open>m.inverted()\<close>
  (\<open>None\<close> when it raises).
\<close>

record 'h bpy =
  data_objects_get :: "'h \<Rightarrow> string \<Rightarrow> object option"
  active_object :: "'h \<Rightarrow> object option"
  object_type :: "'h \<Rightarrow> object \<Rightarrow> string"
  active_pose_bone :: "'h \<Rightarrow> pose_bone option"
  rotation_mode :: "'h \<Rightarrow> pose_bone \<Rightarrow> string"
  matrix_world :: "'h \<Rightarrow> object \<Rightarrow> mat4"
  bone_matrix :: "'h \<Rightarrow> pose_bone \<Rightarrow> mat4"
  on_frame_set :: "int \<Rightarrow> 'h \<Rightarrow> 'h"
  on_update :: "'h \<Rightarrow> 'h"
  on_set_matrix :: "pose_bone \<Rightarrow> mat4 \<Rightarrow> 'h \<Rightarrow> 'h"
  on_keyframe_insert :: "pose_bone \<Rightarrow> string \<Rightarrow> int \<Rightarrow> 'h \<Rightarrow> 'h"
  matrix_inverted :: "mat4 \<Rightarrow> mat4 option"

record 'h state =
  frame_current :: int
  host :: 'h
  trace :: "event list"

definition emit :: "event list \<Rightarrow> 'h state \<Rightarrow> 'h state" where
  "emit es st = st\<lparr>trace := trace st @ es\<rparr>"

text \<open>\<^verbatim>\<open>scene.frame_set(f)\<close>\<close>

definition frame_set :: "'h bpy \<Rightarrow> int \<Rightarrow> 'h state \<Rightarrow> 'h state" where
  "frame_set ops f st =
     st\<lparr>frame_current := f, host := on_frame_set ops f (host st),
        trace := trace st @ [FrameSet f]\<rparr>"

text \<open>\<^verbatim>\<open>bpy.context.view_layer.update()\<close>\<close>

definition view_layer_update :: "'h bpy \<Rightarrow> 'h state \<Rightarrow> 'h state" where
  "view_layer_update ops st =
     st\<lparr>host := on_update ops (host st), trace := trace st @ [ViewLayerUpdate]\<rparr>"

text \<open>\<^verbatim>\<open>ob.matrix_world.copy()\<close> and the read of \<^verbatim>\<open>pose_bone.matrix\<close>\<close>

definition get_matrix_world :: "'h bpy \<Rightarrow> object \<Rightarrow> 'h state \<Rightarrow> mat4 \<times> 'h state" where
  "get_matrix_world ops ob st =
     (let m = matrix_world ops (host st) ob in (m, emit [ReadMatrixWorld ob m] st))"

definition get_bone_matrix :: "'h bpy \<Rightarrow> pose_bone \<Rightarrow> 'h state \<Rightarrow> mat4 \<times> 'h state" where
  "get_bone_matrix ops pb st =
     (let m = bone_matrix ops (host st) pb in (m, emit [ReadBoneMatrix pb m] st))"

text \<open>\<^verbatim>\<open>pose_bone.matrix = m\<close>\<close>

definition set_bone_matrix :: "'h bpy \<Rightarrow> pose_bone \<Rightarrow> mat4 \<Rightarrow> 'h state \<Rightarrow> 'h state" where
  "set_bone_matrix ops pb m st =
     st\<lparr>host := on_set_matrix ops pb m (host st), trace := trace st @ [WriteBoneMatrix pb m]\<rparr>"

text \<open>\<^verbatim>\<open>pose_bone.keyframe_insert(data_path=path, frame=f)\<close>\<close>

definition keyframe_insert ::
  "'h bpy \<Rightarrow> pose_bone \<Rightarrow> string \<Rightarrow> int \<Rightarrow> 'h state \<Rightarrow> 'h state" where
  "keyframe_insert ops pb path f st =
     st\<lparr>host := on_keyframe_insert ops pb path f (host st),
        trace := trace st @ [KeyframeInsert pb path f]\<rparr>"

section \<open>main()\<close>

subsection \<open>Validation (lines 42 to 66)\<close>

definition validate ::
  "'h bpy \<Rightarrow> config \<Rightarrow> 'h state \<Rightarrow> message + (object \<times> object \<times> pose_bone)" where
  "validate ops cfg st =
     (case data_objects_get ops (host st) (EMPTY_NAME cfg) of
        None \<Rightarrow> Inl (ErrEmptyNotFound (EMPTY_NAME cfg))
      | Some empty_ob \<Rightarrow>
         (case active_object ops (host st) of
            None \<Rightarrow> Inl ErrNotArmature
          | Some armature \<Rightarrow>
             if object_type ops (host st) armature \<noteq> ''ARMATURE'' then Inl ErrNotArmature
             else
              (case active_pose_bone ops (host st) of
                 None \<Rightarrow> Inl ErrNoPoseBone
               | Some pose_bone \<Rightarrow>
                  if frame_current st > FRAME_END cfg
                  then Inl (ErrFrameRange (frame_current st) (FRAME_END cfg))
                  else Inr (empty_ob, armature, pose_bone))))"

subsection \<open>The header (lines 69 to 78)\<close>

fun join_space :: "string list \<Rightarrow> string" where
  "join_space [] = []"
| "join_space [a] = a"
| "join_space (a # b # bs) = a @ '' '' @ join_space (b # bs)"

text \<open>The label printed when no axis is selected: the UTF-8 bytes of the source's word.\<close>

definition no_axes_label :: string where
  "no_axes_label = [CHR 0xE3, CHR 0x81, CHR 0xAA, CHR 0xE3, CHR 0x81, CHR 0x97]"

definition axes :: "config \<Rightarrow> string" where
  "axes cfg =
     (let joined = join_space (map fst (filter snd
        [(''X'', FIX_X cfg), (''Y'', FIX_Y cfg), (''Z'', FIX_Z cfg)]))
      in if joined = [] then no_axes_label else joined)"

definition header :: "config \<Rightarrow> object \<Rightarrow> pose_bone \<Rightarrow> string \<Rightarrow> int \<Rightarrow> event list" where
  "header cfg armature pose_bone rot_mode frame_start =
     [Print Rule, Print (InfoBone pose_bone), Print (InfoArmature armature),
      Print (InfoRotMode rot_mode), Print (InfoRange frame_start (FRAME_END cfg)),
      Print (InfoAxes (axes cfg)), Print Rule]"

subsection \<open>Phase 1: sampling (lines 86 to 107)\<close>

record sample =
  arm_w :: mat4
  bone_w :: mat4
  empty_w :: mat4

fun phase1 ::
  "'h bpy \<Rightarrow> object \<Rightarrow> pose_bone \<Rightarrow> object \<Rightarrow> int list \<Rightarrow> (int \<rightharpoonup> sample) \<Rightarrow> 'h state
     \<Rightarrow> (int \<rightharpoonup> sample) \<times> 'h state" where
  "phase1 ops armature pose_bone empty_ob [] samples st = (samples, st)"
| "phase1 ops armature pose_bone empty_ob (frame # frames) samples st =
     (let st1 = view_layer_update ops (frame_set ops frame st);
          (arm, st2) = get_matrix_world ops armature st1;
          (pm, st3) = get_bone_matrix ops pose_bone st2;
          (emp, st4) = get_matrix_world ops empty_ob st3
      in phase1 ops armature pose_bone empty_ob frames
           (samples(frame \<mapsto> \<lparr>arm_w = arm, bone_w = matmul arm pm, empty_w = emp\<rparr>)) st4)"

definition sampling ::
  "'h bpy \<Rightarrow> config \<Rightarrow> object \<Rightarrow> object \<Rightarrow> pose_bone \<Rightarrow> 'h state
     \<Rightarrow> (int \<rightharpoonup> sample) \<times> 'h state" where
  "sampling ops cfg empty_ob armature pose_bone st =
     phase1 ops armature pose_bone empty_ob [frame_current st..FRAME_END cfg] Map.empty
       (emit (header cfg armature pose_bone (rotation_mode ops (host st) pose_bone)
                (frame_current st) @ [Print InfoPhase1]) st)"

subsection \<open>Phase 2: correction (lines 124 to 160)\<close>

text \<open>Lines 140 to 144: the axis mask on the translation of the desired world matrix.\<close>

definition mask_delta :: "config \<Rightarrow> vec3 \<Rightarrow> vec3" where
  "mask_delta cfg delta =
     (let d1 = (if \<not> FIX_X cfg then set_x delta 0 else delta);
          d2 = (if \<not> FIX_Y cfg then set_y d1 0 else d1);
          d3 = (if \<not> FIX_Z cfg then set_z d2 0 else d2)
      in d3)"

definition mask_translation :: "config \<Rightarrow> mat4 \<Rightarrow> mat4 \<Rightarrow> mat4" where
  "mask_translation cfg bone desired_bone_w =
     (let delta = mask_delta cfg (vsub (translation desired_bone_w) (translation bone))
      in set_translation desired_bone_w (vadd (translation bone) delta))"

text \<open>Lines 136 to 144.\<close>

definition desired_world ::
  "(mat4 \<Rightarrow> mat4 option) \<Rightarrow> config \<Rightarrow> mat4 \<Rightarrow> sample \<Rightarrow> py_error + mat4" where
  "desired_world minv cfg empty_w_start s =
     (case inverted minv (empty_w s) of
        Inl e \<Rightarrow> Inl e
      | Inr empty_inv \<Rightarrow>
         Inr (mask_translation cfg (bone_w s)
                (matmul (matmul empty_w_start empty_inv) (bone_w s))))"

text \<open>Line 147: the value assigned to \<^verbatim>\<open>pose_bone.matrix\<close>.\<close>

definition corrected_pose ::
  "(mat4 \<Rightarrow> mat4 option) \<Rightarrow> config \<Rightarrow> mat4 \<Rightarrow> sample \<Rightarrow> py_error + mat4" where
  "corrected_pose minv cfg empty_w_start s =
     (case desired_world minv cfg empty_w_start s of
        Inl e \<Rightarrow> Inl e
      | Inr desired_bone_w \<Rightarrow>
         (case inverted minv (arm_w s) of
            Inl e \<Rightarrow> Inl e
          | Inr arm_inv \<Rightarrow> Inr (matmul arm_inv desired_bone_w)))"

text \<open>Lines 154 to 160: the data path of the rotation keyframe.\<close>

definition rotation_path :: "string \<Rightarrow> string" where
  "rotation_path rot_mode =
     (if rot_mode = ''QUATERNION'' then ''rotation_quaternion''
      else if rot_mode = ''AXIS_ANGLE'' then ''rotation_axis_angle''
      else ''rotation_euler'')"

text \<open>
  The loop of phase 2. An exception leaves the loop at once: the result is the exception,
  if any, and the state at that point.
\<close>

fun phase2 ::
  "'h bpy \<Rightarrow> config \<Rightarrow> pose_bone \<Rightarrow> string \<Rightarrow> (int \<rightharpoonup> sample) \<Rightarrow> mat4 \<Rightarrow> int list
     \<Rightarrow> 'h state \<Rightarrow> py_error option \<times> 'h state" where
  "phase2 ops cfg pose_bone rot_mode samples empty_w_start [] st = (None, st)"
| "phase2 ops cfg pose_bone rot_mode samples empty_w_start (frame # frames) st =
     (let st1 = view_layer_update ops (frame_set ops frame st)
      in case samples frame of
           None \<Rightarrow> (Some KeyError, st1)
         | Some s \<Rightarrow>
            (case corrected_pose (matrix_inverted ops) cfg empty_w_start s of
               Inl e \<Rightarrow> (Some e, st1)
             | Inr m \<Rightarrow>
                (let st2 = view_layer_update ops (set_bone_matrix ops pose_bone m st1);
                     st3 = keyframe_insert ops pose_bone ''location'' frame st2;
                     st4 = keyframe_insert ops pose_bone (rotation_path rot_mode) frame st3
                 in phase2 ops cfg pose_bone rot_mode samples empty_w_start frames st4)))"

subsection \<open>The whole run\<close>

text \<open>
  How \<^verbatim>\<open>main()\<close> ends: it runs to its last line, it prints an error and returns early, or
  an exception leaves it (nothing in the script catches one).
\<close>

datatype outcome = Completed | Returned | Raised py_error

definition main :: "'h bpy \<Rightarrow> config \<Rightarrow> 'h state \<Rightarrow> outcome \<times> 'h state" where
  "main ops cfg st =
     (case validate ops cfg st of
        Inl msg \<Rightarrow> (Returned, emit [Print msg] st)
      | Inr (empty_ob, armature, pose_bone) \<Rightarrow>
         (let frame_start = frame_current st;
              frame_end = FRAME_END cfg;
              rot_mode = rotation_mode ops (host st) pose_bone;
              saved_frame = frame_start;
              (samples, st1) = sampling ops cfg empty_ob armature pose_bone st
          in case samples frame_start of
               None \<Rightarrow> (Raised KeyError, st1)
             | Some s0 \<Rightarrow>
                (let empty_w_start = empty_w s0;
                     st2 = emit [Print (InfoReference (translation empty_w_start)),
                                 Print InfoPhase2] st1
                 in case phase2 ops cfg pose_bone rot_mode samples empty_w_start
                           [frame_start..frame_end] st2 of
                      (Some e, st3) \<Rightarrow> (Raised e, st3)
                    | (None, st3) \<Rightarrow>
                       (let st4 = view_layer_update ops (frame_set ops saved_frame st3);
                            total = frame_end - frame_start + 1;
                            st5 = emit [Print (Done total frame_start frame_end),
                                        PopupMenu (Done total frame_start frame_end)] st4
                        in (Completed, st5)))))"

section \<open>Reading a run off its trace\<close>

text \<open>The events a run adds to the trace it started with.\<close>

definition run_trace :: "'h bpy \<Rightarrow> config \<Rightarrow> 'h state \<Rightarrow> event list" where
  "run_trace ops cfg st = drop (length (trace st)) (trace (snd (main ops cfg st)))"

text \<open>
  The poses assigned to the bone, each with the frame the clock stood at, in order;
  \<open>c\<close> is the clock before the first event.
\<close>

fun commits :: "int \<Rightarrow> event list \<Rightarrow> (int \<times> mat4) list" where
  "commits c [] = []"
| "commits c (FrameSet f # es) = commits f es"
| "commits c (WriteBoneMatrix pb m # es) = (c, m) # commits c es"
| "commits c (e # es) = commits c es"

text \<open>The poses read from the bone, each with the frame the clock stood at.\<close>

fun sampled_poses :: "int \<Rightarrow> event list \<Rightarrow> (int \<times> mat4) list" where
  "sampled_poses c [] = []"
| "sampled_poses c (FrameSet f # es) = sampled_poses f es"
| "sampled_poses c (ReadBoneMatrix pb m # es) = (c, m) # sampled_poses c es"
| "sampled_poses c (e # es) = sampled_poses c es"

fun is_read :: "event \<Rightarrow> bool" where
  "is_read (ReadMatrixWorld ob m) = True"
| "is_read (ReadBoneMatrix pb m) = True"
| "is_read e = False"

fun is_commit :: "event \<Rightarrow> bool" where
  "is_commit (WriteBoneMatrix pb m) = True"
| "is_commit (KeyframeInsert pb path f) = True"
| "is_commit e = False"

text \<open>The frame the clock stood at for each read of a transform.\<close>

fun read_frames :: "int \<Rightarrow> event list \<Rightarrow> int list" where
  "read_frames c [] = []"
| "read_frames c (FrameSet f # es) = read_frames f es"
| "read_frames c (e # es) = (if is_read e then c # read_frames c es else read_frames c es)"

text \<open>The keyframes inserted: data path and frame.\<close>

fun keyframes :: "event list \<Rightarrow> (string \<times> int) list" where
  "keyframes [] = []"
| "keyframes (KeyframeInsert pb path f # es) = (path, f) # keyframes es"
| "keyframes (e # es) = keyframes es"

fun is_error_report :: "event \<Rightarrow> bool" where
  "is_error_report (Print (ErrEmptyNotFound n)) = True"
| "is_error_report (Print ErrNotArmature) = True"
| "is_error_report (Print ErrNoPoseBone) = True"
| "is_error_report (Print (ErrFrameRange a b)) = True"
| "is_error_report e = False"

subsection \<open>What the two loops do, as functions of the host and of the sample table\<close>

text \<open>
  The functions of this subsection are not in the script: they describe, without the state,
  what \<open>phase1\<close> and \<open>phase2\<close> read, write and return, and are proved to agree with the
  two loops (\<open>phase1_trace\<close>, \<open>phase1_sample\<close>, \<open>phase2_trace\<close>, \<open>phase2_result\<close>,
  \<open>phase2_clock\<close>, \<open>main_commits\<close>).
\<close>

text \<open>The host's data after the evaluation of each sampled frame.\<close>

fun sampled_hosts :: "'h bpy \<Rightarrow> int list \<Rightarrow> 'h \<Rightarrow> (int \<times> 'h) list" where
  "sampled_hosts ops [] h = []"
| "sampled_hosts ops (f # fs) h =
     (let h1 = on_update ops (on_frame_set ops f h) in (f, h1) # sampled_hosts ops fs h1)"

definition sample_of :: "'h bpy \<Rightarrow> object \<Rightarrow> pose_bone \<Rightarrow> object \<Rightarrow> 'h \<Rightarrow> sample" where
  "sample_of ops armature pose_bone empty_ob h =
     \<lparr>arm_w = matrix_world ops h armature,
      bone_w = matmul (matrix_world ops h armature) (bone_matrix ops h pose_bone),
      empty_w = matrix_world ops h empty_ob\<rparr>"

definition sample_events ::
  "'h bpy \<Rightarrow> object \<Rightarrow> pose_bone \<Rightarrow> object \<Rightarrow> int \<times> 'h \<Rightarrow> event list" where
  "sample_events ops armature pose_bone empty_ob fh =
     [FrameSet (fst fh), ViewLayerUpdate,
      ReadMatrixWorld armature (matrix_world ops (snd fh) armature),
      ReadBoneMatrix pose_bone (bone_matrix ops (snd fh) pose_bone),
      ReadMatrixWorld empty_ob (matrix_world ops (snd fh) empty_ob)]"

text \<open>The frames phase 2 gets through, with the pose it assigns at each.\<close>

fun committed ::
  "(mat4 \<Rightarrow> mat4 option) \<Rightarrow> config \<Rightarrow> (int \<rightharpoonup> sample) \<Rightarrow> mat4 \<Rightarrow> int list \<Rightarrow> (int \<times> mat4) list" where
  "committed minv cfg samples ews [] = []"
| "committed minv cfg samples ews (f # fs) =
     (case samples f of
        None \<Rightarrow> []
      | Some s \<Rightarrow>
         (case corrected_pose minv cfg ews s of
            Inl e \<Rightarrow> []
          | Inr m \<Rightarrow> (f, m) # committed minv cfg samples ews fs))"

text \<open>The frame at which phase 2 raises, and the exception, if it does.\<close>

fun phase2_error ::
  "(mat4 \<Rightarrow> mat4 option) \<Rightarrow> config \<Rightarrow> (int \<rightharpoonup> sample) \<Rightarrow> mat4 \<Rightarrow> int list \<Rightarrow> (int \<times> py_error) option" where
  "phase2_error minv cfg samples ews [] = None"
| "phase2_error minv cfg samples ews (f # fs) =
     (case samples f of
        None \<Rightarrow> Some (f, KeyError)
      | Some s \<Rightarrow>
         (case corrected_pose minv cfg ews s of
            Inl e \<Rightarrow> Some (f, e)
          | Inr m \<Rightarrow> phase2_error minv cfg samples ews fs))"

fun phase2_events ::
  "(mat4 \<Rightarrow> mat4 option) \<Rightarrow> config \<Rightarrow> pose_bone \<Rightarrow> string \<Rightarrow> (int \<rightharpoonup> sample) \<Rightarrow> mat4 \<Rightarrow> int list \<Rightarrow> event list" where
  "phase2_events minv cfg pb rm samples ews [] = []"
| "phase2_events minv cfg pb rm samples ews (f # fs) =
     [FrameSet f, ViewLayerUpdate] @
     (case samples f of
        None \<Rightarrow> []
      | Some s \<Rightarrow>
         (case corrected_pose minv cfg ews s of
            Inl e \<Rightarrow> []
          | Inr m \<Rightarrow>
             [WriteBoneMatrix pb m, ViewLayerUpdate,
              KeyframeInsert pb ''location'' f, KeyframeInsert pb (rotation_path rm) f]
             @ phase2_events minv cfg pb rm samples ews fs))"

text \<open>Lines 162 to 174: the events of a normal end.\<close>

definition closing :: "config \<Rightarrow> int \<Rightarrow> event list" where
  "closing cfg frame_start =
     [FrameSet frame_start, ViewLayerUpdate,
      Print (Done (FRAME_END cfg - frame_start + 1) frame_start (FRAME_END cfg)),
      PopupMenu (Done (FRAME_END cfg - frame_start + 1) frame_start (FRAME_END cfg))]"

subsection \<open>Affine transforms\<close>

text \<open>\<^verbatim>\<open>Matrix.Translation(v)\<close>\<close>

definition Translation :: "vec3 \<Rightarrow> mat4" where
  "Translation v = Mat4 1 0 0 (vx v)  0 1 0 (vy v)  0 0 1 (vz v)  0 0 0 1"

text \<open>The bottom row of every transform the host evaluates is \<open>(0, 0, 0, 1)\<close>.\<close>

definition affine :: "mat4 \<Rightarrow> bool" where
  "affine a = (m30 a = 0 \<and> m31 a = 0 \<and> m32 a = 0 \<and> m33 a = 1)"

text \<open>The 3x3 rotation and scale block of a transform, row by row.\<close>

definition rot_block :: "mat4 \<Rightarrow> real list" where
  "rot_block a = [m00 a, m01 a, m02 a, m10 a, m11 a, m12 a, m20 a, m21 a, m22 a]"

section \<open>A host that plays a fixed animation\<close>

text \<open>
  For concrete runs: a scene with the object \<open>Empty\<close>, the active armature \<open>Armature\<close>
  and the active pose bone \<open>Bone\<close>. The host's data is the frame last evaluated, and the
  three transforms are given functions of it; matrices are inverted in exact arithmetic.
\<close>

definition scripted_host ::
  "(int \<Rightarrow> mat4) \<Rightarrow> (int \<Rightarrow> mat4) \<Rightarrow> (int \<Rightarrow> mat4) \<Rightarrow> string \<Rightarrow> int bpy" where
  "scripted_host arm_anim pose_anim empty_anim rot =
     \<lparr>data_objects_get = (\<lambda>h n. if n = ''Empty'' then Some ''Empty'' else None),
      active_object = (\<lambda>h. Some ''Armature''),
      object_type = (\<lambda>h ob. if ob = ''Armature'' then ''ARMATURE'' else ''EMPTY''),
      active_pose_bone = (\<lambda>h. Some ''Bone''),
      rotation_mode = (\<lambda>h pb. rot),
      matrix_world = (\<lambda>h ob. if ob = ''Empty'' then empty_anim h else arm_anim h),
      bone_matrix = (\<lambda>h pb. pose_anim h),
      on_frame_set = (\<lambda>f h. f),
      on_update = (\<lambda>h. h),
      on_set_matrix = (\<lambda>pb m h. h),
      on_keyframe_insert = (\<lambda>pb path f h. h),
      matrix_inverted = exact_inverted\<rparr>"

definition start_state :: "int \<Rightarrow> int state" where
  "start_state f = \<lparr>frame_current = f, host = f, trace = []\<rparr>"

definition config_to :: "int \<Rightarrow> bool \<Rightarrow> bool \<Rightarrow> bool \<Rightarrow> config" where
  "config_to frame_end fx fy fz =
     \<lparr>EMPTY_NAME = ''Empty'', FRAME_END = frame_end, FIX_X = fx, FIX_Y = fy, FIX_Z = fz\<rparr>"

text \<open>The sample table phase 1 builds on such a host, for the frames \<open>lo\<close> to \<open>hi\<close>.\<close>

definition scripted_samples ::
  "(int \<Rightarrow> mat4) \<Rightarrow> (int \<Rightarrow> mat4) \<Rightarrow> (int \<Rightarrow> mat4) \<Rightarrow> int \<Rightarrow> int \<Rightarrow> int \<rightharpoonup> sample" where
  "scripted_samples a p e lo hi f =
     (if lo \<le> f \<and> f \<le> hi
      then Some \<lparr>arm_w = a f, bone_w = matmul (a f) (p f), empty_w = e f\<rparr> else None)"

text \<open>
  Scenario B of the specification: the armature at the origin, the bone at \<open>(2, 0, 3)\<close>
  at every frame, the anchor moving along X from \<open>0\<close> at frame 1 to \<open>10\<close> at frame 10.
\<close>

definition scenario_B :: "int bpy" where
  "scenario_B = scripted_host (\<lambda>f. identity) (\<lambda>f. Translation (Vector 2 0 3))
     (\<lambda>f. Translation (Vector (10 * (real_of_int f - 1) / 9) 0 0)) ''QUATERNION''"

text \<open>
  An anchor whose X scale is zero at frame 2, so that its world matrix has no inverse there;
  the bone rests at \<open>(2, 0, 3)\<close>.
\<close>

definition flat_x :: mat4 where
  "flat_x = Mat4 0 0 0 0  0 1 0 0  0 0 1 0  0 0 0 1"

definition degenerate_anchor :: "int bpy" where
  "degenerate_anchor = scripted_host (\<lambda>f. identity) (\<lambda>f. Translation (Vector 2 0 3))
     (\<lambda>f. if f = 2 then flat_x else identity) ''QUATERNION''"

text \<open>
  An anchor that stands at the origin and is turned a quarter turn about Z from frame 2 on;
  armature and bone stay at the identity.
\<close>

definition quarter_turn_z :: mat4 where
  "quarter_turn_z = Mat4 0 (- 1) 0 0  1 0 0 0  0 0 1 0  0 0 0 1"

definition rotating_anchor :: "int bpy" where
  "rotating_anchor = scripted_host (\<lambda>f. identity) (\<lambda>f. identity)
     (\<lambda>f. if f = 1 then identity else quarter_turn_z) ''QUATERNION''"


text \<open>
  An anchor turned a quarter turn about Z that moves one unit a frame along X, an armature
  scaled by two, and a bone whose pose permutes the axes.
\<close>

definition turned_anchor :: "int bpy" where
  "turned_anchor = scripted_host
     (\<lambda>f. Mat4 2 0 0 0  0 2 0 0  0 0 2 0  0 0 0 1)
     (\<lambda>f. Mat4 0 0 1 1  1 0 0 2  0 1 0 3  0 0 0 1)
     (\<lambda>f. Mat4 0 (- 1) 0 (real_of_int f - 1)  1 0 0 0  0 0 1 0  0 0 0 1) ''QUATERNION''"

section \<open>Matrix algebra\<close>

lemma matmul_assoc: "matmul (matmul a b) c = matmul a (matmul b c)"
  by (simp add: matmul_def algebra_simps)

lemma matmul_identity_left: "matmul identity a = a"
  by (simp add: matmul_def identity_def)

lemma matmul_identity_right: "matmul a identity = a"
  by (simp add: matmul_def identity_def)

lemma matmul_adjugate: "matmul a (adjugate a) = smul (determinant a) identity"
  by (simp add: matmul_def adjugate_def smul_def identity_def determinant_def det3_def
      algebra_simps)

lemma adjugate_matmul: "matmul (adjugate a) a = smul (determinant a) identity"
  by (simp add: matmul_def adjugate_def smul_def identity_def determinant_def det3_def
      algebra_simps)

lemma matmul_smul_right: "matmul a (smul c b) = smul c (matmul a b)"
  by (simp add: matmul_def smul_def algebra_simps)

lemma matmul_smul_left: "matmul (smul c a) b = smul c (matmul a b)"
  by (simp add: matmul_def smul_def algebra_simps)

lemma smul_smul: "smul c (smul d a) = smul (c * d) a"
  by (simp add: smul_def algebra_simps)

lemma smul_one: "smul 1 a = a"
  by (simp add: smul_def)

lemma matmul_exact_inverse_right:
  "determinant a \<noteq> 0 \<Longrightarrow> matmul a (exact_inverse a) = identity"
  by (simp add: exact_inverse_def matmul_smul_right matmul_adjugate smul_smul smul_one)

lemma matmul_exact_inverse_left:
  "determinant a \<noteq> 0 \<Longrightarrow> matmul (exact_inverse a) a = identity"
  by (simp add: exact_inverse_def matmul_smul_left adjugate_matmul smul_smul smul_one)

section \<open>The two loops\<close>

lemma trace_emit [simp]: "trace (emit es st) = trace st @ es"
  and host_emit [simp]: "host (emit es st) = host st"
  and clock_emit [simp]: "frame_current (emit es st) = frame_current st"
  by (simp_all add: emit_def)

lemmas step_defs = Let_def get_matrix_world_def get_bone_matrix_def view_layer_update_def
  frame_set_def set_bone_matrix_def keyframe_insert_def

lemma phase1_trace:
  "trace (snd (phase1 ops arm pb em fs smp st)) =
     trace st @ concat (map (sample_events ops arm pb em) (sampled_hosts ops fs (host st)))"
  by (induction fs arbitrary: smp st) (simp_all add: step_defs sample_events_def split: prod.splits)

lemma phase1_clock:
  "frame_current (snd (phase1 ops arm pb em fs smp st)) = last (frame_current st # fs)"
  by (induction fs arbitrary: smp st) (simp_all add: step_defs split: prod.splits)

lemma phase1_other:
  "f \<notin> set fs \<Longrightarrow> fst (phase1 ops arm pb em fs smp st) f = smp f"
  by (induction fs arbitrary: smp st) (simp_all add: step_defs split: prod.splits)

lemma phase1_sample:
  "distinct fs \<Longrightarrow> (f, h1) \<in> set (sampled_hosts ops fs (host st)) \<Longrightarrow>
     fst (phase1 ops arm pb em fs smp st) f = Some (sample_of ops arm pb em h1)"
proof (induction fs arbitrary: smp st)
  case Nil
  then show ?case by simp
next
  case (Cons g gs)
  then show ?case
    by (auto simp add: step_defs phase1_other sample_of_def split: prod.splits)
qed

lemma sampled_hosts_frames: "map fst (sampled_hosts ops fs h) = fs"
  by (induction fs arbitrary: h) (simp_all add: Let_def)

lemma phase2_trace:
  "trace (snd (phase2 ops cfg pb rm samples ews fs st)) =
     trace st @ phase2_events (matrix_inverted ops) cfg pb rm samples ews fs"
  by (induction fs arbitrary: st) (simp_all add: step_defs split: option.splits sum.splits)

lemma phase2_result:
  "fst (phase2 ops cfg pb rm samples ews fs st) =
     map_option snd (phase2_error (matrix_inverted ops) cfg samples ews fs)"
  by (induction fs arbitrary: st) (simp_all add: Let_def split: option.splits sum.splits)

lemma phase2_clock:
  "frame_current (snd (phase2 ops cfg pb rm samples ews fs st)) =
     (case phase2_error (matrix_inverted ops) cfg samples ews fs of
        None \<Rightarrow> last (frame_current st # fs)
      | Some (f, e) \<Rightarrow> f)"
  by (induction fs arbitrary: st) (simp_all add: step_defs split: option.splits sum.splits)

section \<open>The whole run\<close>

lemma validate_range: "validate ops cfg st = Inr (em, arm, pb) \<Longrightarrow> frame_current st \<le> FRAME_END cfg"
  by (auto simp: validate_def split: option.splits if_splits)

lemma sampled_hosts_upto_head:
  "i \<le> j \<Longrightarrow> (i, on_update ops (on_frame_set ops i h)) \<in> set (sampled_hosts ops [i..j] h)"
  by (subst upto_rec1) (simp_all add: Let_def)

lemma sampling_first:
  assumes "validate ops cfg st = Inr (em, arm, pb)"
  shows "fst (sampling ops cfg em arm pb st) (frame_current st) =
           Some (sample_of ops arm pb em (on_update ops (on_frame_set ops (frame_current st) (host st))))"
  unfolding sampling_def
  by (rule phase1_sample) (simp_all add: sampled_hosts_upto_head validate_range [OF assms])

lemma sampling_at:
  "(f, h1) \<in> set (sampled_hosts ops [frame_current st..FRAME_END cfg] (host st)) \<Longrightarrow>
     fst (sampling ops cfg em arm pb st) f = Some (sample_of ops arm pb em h1)"
  unfolding sampling_def
  by (rule phase1_sample) simp_all

lemma sampling_trace:
  "trace (snd (sampling ops cfg em arm pb st)) =
     trace st @ header cfg arm pb (rotation_mode ops (host st) pb) (frame_current st) @ [Print InfoPhase1]
       @ concat (map (sample_events ops arm pb em)
           (sampled_hosts ops [frame_current st..FRAME_END cfg] (host st)))"
  by (simp add: sampling_def phase1_trace)

lemma main_invalid:
  "validate ops cfg st = Inl msg \<Longrightarrow> main ops cfg st = (Returned, emit [Print msg] st)"
  by (simp add: main_def)

lemma main_outcome:
  assumes v: "validate ops cfg st = Inr (em, arm, pb)"
    and s0: "fst (sampling ops cfg em arm pb st) (frame_current st) = Some s0"
  shows "fst (main ops cfg st) =
     (case phase2_error (matrix_inverted ops) cfg (fst (sampling ops cfg em arm pb st)) (empty_w s0)
             [frame_current st..FRAME_END cfg] of
        None \<Rightarrow> Completed | Some (f, e) \<Rightarrow> Raised e)"
proof -
  obtain S st1 where p1: "sampling ops cfg em arm pb st = (S, st1)" by (cases "sampling ops cfg em arm pb st")
  with s0 have S: "S (frame_current st) = Some s0" by simp
  obtain r st3 where p2: "phase2 ops cfg pb (rotation_mode ops (host st) pb) S (empty_w s0)
      [frame_current st..FRAME_END cfg]
      (emit [Print (InfoReference (translation (empty_w s0))), Print InfoPhase2] st1) = (r, st3)"
    by (cases "phase2 ops cfg pb (rotation_mode ops (host st) pb) S (empty_w s0)
      [frame_current st..FRAME_END cfg]
      (emit [Print (InfoReference (translation (empty_w s0))), Print InfoPhase2] st1)")
  have r: "r = map_option snd (phase2_error (matrix_inverted ops) cfg S (empty_w s0) [frame_current st..FRAME_END cfg])"
    using phase2_result [of ops cfg pb "rotation_mode ops (host st) pb" S "empty_w s0"
        "[frame_current st..FRAME_END cfg]"
        "emit [Print (InfoReference (translation (empty_w s0))), Print InfoPhase2] st1"] p2
    by simp
  show ?thesis
    using v p1 S p2 r by (simp add: main_def Let_def split: option.splits)
qed

lemma main_trace:
  assumes v: "validate ops cfg st = Inr (em, arm, pb)"
    and s0: "fst (sampling ops cfg em arm pb st) (frame_current st) = Some s0"
  shows "run_trace ops cfg st =
     header cfg arm pb (rotation_mode ops (host st) pb) (frame_current st) @ [Print InfoPhase1]
     @ concat (map (sample_events ops arm pb em)
           (sampled_hosts ops [frame_current st..FRAME_END cfg] (host st)))
     @ [Print (InfoReference (translation (empty_w s0))), Print InfoPhase2]
     @ phase2_events (matrix_inverted ops) cfg pb (rotation_mode ops (host st) pb) (fst (sampling ops cfg em arm pb st))
         (empty_w s0) [frame_current st..FRAME_END cfg]
     @ (case phase2_error (matrix_inverted ops) cfg (fst (sampling ops cfg em arm pb st)) (empty_w s0)
             [frame_current st..FRAME_END cfg] of
          None \<Rightarrow> closing cfg (frame_current st) | Some fe \<Rightarrow> [])"
proof -
  obtain S st1 where p1: "sampling ops cfg em arm pb st = (S, st1)" by (cases "sampling ops cfg em arm pb st")
  with s0 have S: "S (frame_current st) = Some s0" by simp
  have t1: "trace st1 = trace st @ header cfg arm pb (rotation_mode ops (host st) pb) (frame_current st) @ [Print InfoPhase1]
       @ concat (map (sample_events ops arm pb em)
           (sampled_hosts ops [frame_current st..FRAME_END cfg] (host st)))"
    using sampling_trace [of ops cfg em arm pb st] p1 by simp
  obtain r st3 where p2: "phase2 ops cfg pb (rotation_mode ops (host st) pb) S (empty_w s0)
      [frame_current st..FRAME_END cfg]
      (emit [Print (InfoReference (translation (empty_w s0))), Print InfoPhase2] st1) = (r, st3)"
    by (cases "phase2 ops cfg pb (rotation_mode ops (host st) pb) S (empty_w s0)
      [frame_current st..FRAME_END cfg]
      (emit [Print (InfoReference (translation (empty_w s0))), Print InfoPhase2] st1)")
  have r: "r = map_option snd (phase2_error (matrix_inverted ops) cfg S (empty_w s0) [frame_current st..FRAME_END cfg])"
    using phase2_result [of ops cfg pb "rotation_mode ops (host st) pb" S "empty_w s0"
        "[frame_current st..FRAME_END cfg]"
        "emit [Print (InfoReference (translation (empty_w s0))), Print InfoPhase2] st1"] p2
    by simp
  have t3: "trace st3 = trace st1 @ [Print (InfoReference (translation (empty_w s0))), Print InfoPhase2]
      @ phase2_events (matrix_inverted ops) cfg pb (rotation_mode ops (host st) pb) S (empty_w s0) [frame_current st..FRAME_END cfg]"
    using phase2_trace [of ops cfg pb "rotation_mode ops (host st) pb" S "empty_w s0"
        "[frame_current st..FRAME_END cfg]"
        "emit [Print (InfoReference (translation (empty_w s0))), Print InfoPhase2] st1"] p2
    by simp
  show ?thesis
    using v p1 S p2 r t1 t3
    by (auto simp add: run_trace_def main_def Let_def closing_def view_layer_update_def frame_set_def
        split: option.splits)
qed

lemma main_clock:
  assumes v: "validate ops cfg st = Inr (em, arm, pb)"
    and s0: "fst (sampling ops cfg em arm pb st) (frame_current st) = Some s0"
  shows "frame_current (snd (main ops cfg st)) =
     (case phase2_error (matrix_inverted ops) cfg (fst (sampling ops cfg em arm pb st)) (empty_w s0)
             [frame_current st..FRAME_END cfg] of
        None \<Rightarrow> frame_current st | Some (f, e) \<Rightarrow> f)"
proof -
  obtain S st1 where p1: "sampling ops cfg em arm pb st = (S, st1)" by (cases "sampling ops cfg em arm pb st")
  with s0 have S: "S (frame_current st) = Some s0" by simp
  obtain r st3 where p2: "phase2 ops cfg pb (rotation_mode ops (host st) pb) S (empty_w s0)
      [frame_current st..FRAME_END cfg]
      (emit [Print (InfoReference (translation (empty_w s0))), Print InfoPhase2] st1) = (r, st3)"
    by (cases "phase2 ops cfg pb (rotation_mode ops (host st) pb) S (empty_w s0)
      [frame_current st..FRAME_END cfg]
      (emit [Print (InfoReference (translation (empty_w s0))), Print InfoPhase2] st1)")
  have r: "r = map_option snd (phase2_error (matrix_inverted ops) cfg S (empty_w s0) [frame_current st..FRAME_END cfg])"
    using phase2_result [of ops cfg pb "rotation_mode ops (host st) pb" S "empty_w s0"
        "[frame_current st..FRAME_END cfg]"
        "emit [Print (InfoReference (translation (empty_w s0))), Print InfoPhase2] st1"] p2
    by simp
  have c3: "frame_current st3 = f"
    if "phase2_error (matrix_inverted ops) cfg S (empty_w s0) [frame_current st..FRAME_END cfg] = Some (f, e)" for f e
    using phase2_clock [of ops cfg pb "rotation_mode ops (host st) pb" S "empty_w s0"
        "[frame_current st..FRAME_END cfg]"
        "emit [Print (InfoReference (translation (empty_w s0))), Print InfoPhase2] st1"] p2 that
    by simp
  show ?thesis
    using v p1 S p2 r c3
    by (auto simp add: main_def Let_def view_layer_update_def frame_set_def
        split: option.splits)
qed

section \<open>The poses a run commits\<close>

lemma commits_samples:
  "commits c (concat (map (sample_events ops arm pb em) hs) @ ys) =
     commits (last (c # map fst hs)) ys"
  by (induction hs arbitrary: c) (simp_all add: sample_events_def)

lemma commits_phase2:
  "(\<And>d. commits d ys = []) \<Longrightarrow>
     commits c (phase2_events minv cfg pb rm S ews fs @ ys) = committed minv cfg S ews fs"
  by (induction fs arbitrary: c) (simp_all split: option.splits sum.splits)

lemma commits_closing: "commits d (closing cfg f) = []"
  by (simp add: closing_def)

lemma main_commits:
  assumes "validate ops cfg st = Inr (em, arm, pb)"
    and "fst (sampling ops cfg em arm pb st) (frame_current st) = Some s0"
  shows "commits c (run_trace ops cfg st) =
     committed (matrix_inverted ops) cfg (fst (sampling ops cfg em arm pb st)) (empty_w s0)
       [frame_current st..FRAME_END cfg]"
proof -
  have tail: "commits d (case phase2_error (matrix_inverted ops) cfg (fst (sampling ops cfg em arm pb st)) (empty_w s0)
             [frame_current st..FRAME_END cfg] of
          None \<Rightarrow> closing cfg (frame_current st) | Some fe \<Rightarrow> []) = []" for d
    by (simp add: commits_closing split: option.splits)
  show ?thesis
    unfolding main_trace [OF assms]
    by (simp add: header_def commits_samples commits_phase2 [OF tail])
qed

lemma corrected_pose_Inr:
  "corrected_pose minv cfg ews s = Inr m \<Longrightarrow>
     \<exists>ie ia. minv (empty_w s) = Some ie \<and> minv (arm_w s) = Some ia \<and>
       m = matmul ia (mask_translation cfg (bone_w s) (matmul (matmul ews ie) (bone_w s)))"
  by (auto simp: corrected_pose_def desired_world_def inverted_def split: option.splits)

lemma corrected_pose_Inl:
  "corrected_pose minv cfg ews s = Inl e \<Longrightarrow>
     e = ValueError \<and> (minv (empty_w s) = None \<or> minv (arm_w s) = None)"
  by (auto simp: corrected_pose_def desired_world_def inverted_def split: option.splits)

lemma committed_mem:
  "(t, m) \<in> set (committed minv cfg S ews fs) \<Longrightarrow>
     t \<in> set fs \<and> (\<exists>s. S t = Some s \<and> corrected_pose minv cfg ews s = Inr m)"
proof (induction fs)
  case Nil
  then show ?case by simp
next
  case (Cons f fs)
  show ?case
  proof (cases "S f")
    case None
    with Cons.prems show ?thesis by simp
  next
    case (Some s)
    show ?thesis
    proof (cases "corrected_pose minv cfg ews s")
      case (Inl e)
      with Some Cons.prems show ?thesis by simp
    next
      case (Inr m')
      with Some Cons.prems have "(t, m) = (f, m') \<or> (t, m) \<in> set (committed minv cfg S ews fs)"
        by simp
      then show ?thesis
      proof
        assume "(t, m) = (f, m')"
        with Some Inr show ?thesis by simp
      next
        assume "(t, m) \<in> set (committed minv cfg S ews fs)"
        from Cons.IH [OF this] show ?thesis by simp
      qed
    qed
  qed
qed


section \<open>Runs on the scripted host\<close>

lemma scripted_host_simps:
  "data_objects_get (scripted_host a p e r) h n = (if n = ''Empty'' then Some ''Empty'' else None)"
  "active_object (scripted_host a p e r) h = Some ''Armature''"
  "object_type (scripted_host a p e r) h ob = (if ob = ''Armature'' then ''ARMATURE'' else ''EMPTY'')"
  "active_pose_bone (scripted_host a p e r) h = Some ''Bone''"
  "rotation_mode (scripted_host a p e r) h pb = r"
  "matrix_world (scripted_host a p e r) h ob = (if ob = ''Empty'' then e h else a h)"
  "bone_matrix (scripted_host a p e r) h pb = p h"
  "on_frame_set (scripted_host a p e r) f h = f"
  "on_update (scripted_host a p e r) h = h"
  "on_set_matrix (scripted_host a p e r) pb m h = h"
  "on_keyframe_insert (scripted_host a p e r) pb path f h = h"
  "matrix_inverted (scripted_host a p e r) = exact_inverted"
  by (simp_all add: scripted_host_def)

lemma scripted_validate:
  "EMPTY_NAME cfg = ''Empty'' \<Longrightarrow> frame_current st \<le> FRAME_END cfg \<Longrightarrow>
     validate (scripted_host a p e r) cfg st = Inr (''Empty'', ''Armature'', ''Bone'')"
  by (simp add: validate_def scripted_host_simps)

lemma scripted_sampled_hosts:
  "sampled_hosts (scripted_host a p e r) fs h = map (\<lambda>f. (f, f)) fs"
  by (induction fs arbitrary: h) (simp_all add: scripted_host_simps)

lemma scripted_sampling:
  "fst (sampling (scripted_host a p e r) cfg ''Empty'' ''Armature'' ''Bone'' st) =
     scripted_samples a p e (frame_current st) (FRAME_END cfg)"
proof
  fix f
  show "fst (sampling (scripted_host a p e r) cfg ''Empty'' ''Armature'' ''Bone'' st) f =
     scripted_samples a p e (frame_current st) (FRAME_END cfg) f"
  proof (cases "frame_current st \<le> f \<and> f \<le> FRAME_END cfg")
    case True
    then have "(f, f) \<in> set (sampled_hosts (scripted_host a p e r)
        [frame_current st..FRAME_END cfg] (host st))"
      by (simp add: scripted_sampled_hosts)
    from sampling_at [OF this] True show ?thesis
      by (simp add: scripted_samples_def sample_of_def scripted_host_simps)
  next
    case False
    then have "f \<notin> set [frame_current st..FRAME_END cfg]" by auto
    then have "fst (sampling (scripted_host a p e r) cfg ''Empty'' ''Armature'' ''Bone'' st) f =
        Map.empty f"
      unfolding sampling_def by (rule phase1_other)
    with False show ?thesis
      by (simp add: scripted_samples_def)
  qed
qed

lemma scripted_commits:
  assumes "EMPTY_NAME cfg = ''Empty''" and "frame_current st \<le> FRAME_END cfg"
  shows "commits c (run_trace (scripted_host a p e r) cfg st) =
     committed exact_inverted cfg (scripted_samples a p e (frame_current st) (FRAME_END cfg))
       (e (frame_current st)) [frame_current st..FRAME_END cfg]"
proof -
  have s0: "fst (sampling (scripted_host a p e r) cfg ''Empty'' ''Armature'' ''Bone'' st)
      (frame_current st) = Some \<lparr>arm_w = a (frame_current st),
        bone_w = matmul (a (frame_current st)) (p (frame_current st)),
        empty_w = e (frame_current st)\<rparr>"
    using assms by (simp add: scripted_sampling scripted_samples_def)
  show ?thesis
    using main_commits [OF scripted_validate [OF assms] s0] by (simp add: scripted_sampling scripted_host_simps)
qed

lemma scripted_outcome:
  assumes "EMPTY_NAME cfg = ''Empty''" and "frame_current st \<le> FRAME_END cfg"
  shows "fst (main (scripted_host a p e r) cfg st) =
     (case phase2_error exact_inverted cfg (scripted_samples a p e (frame_current st) (FRAME_END cfg))
        (e (frame_current st)) [frame_current st..FRAME_END cfg] of
        None \<Rightarrow> Completed | Some (f, x) \<Rightarrow> Raised x)"
proof -
  have s0: "fst (sampling (scripted_host a p e r) cfg ''Empty'' ''Armature'' ''Bone'' st)
      (frame_current st) = Some \<lparr>arm_w = a (frame_current st),
        bone_w = matmul (a (frame_current st)) (p (frame_current st)),
        empty_w = e (frame_current st)\<rparr>"
    using assms by (simp add: scripted_sampling scripted_samples_def)
  show ?thesis
    using main_outcome [OF scripted_validate [OF assms] s0] by (simp add: scripted_sampling scripted_host_simps)
qed

lemma scripted_clock:
  assumes "EMPTY_NAME cfg = ''Empty''" and "frame_current st \<le> FRAME_END cfg"
  shows "frame_current (snd (main (scripted_host a p e r) cfg st)) =
     (case phase2_error exact_inverted cfg (scripted_samples a p e (frame_current st) (FRAME_END cfg))
        (e (frame_current st)) [frame_current st..FRAME_END cfg] of
        None \<Rightarrow> frame_current st | Some (f, x) \<Rightarrow> f)"
proof -
  have s0: "fst (sampling (scripted_host a p e r) cfg ''Empty'' ''Armature'' ''Bone'' st)
      (frame_current st) = Some \<lparr>arm_w = a (frame_current st),
        bone_w = matmul (a (frame_current st)) (p (frame_current st)),
        empty_w = e (frame_current st)\<rparr>"
    using assms by (simp add: scripted_sampling scripted_samples_def)
  show ?thesis
    using main_clock [OF scripted_validate [OF assms] s0] by (simp add: scripted_sampling scripted_host_simps)
qed

lemmas mat_defs = corrected_pose_def desired_world_def inverted_def exact_inverted_def
  exact_inverse_def
  determinant_def det3_def adjugate_def smul_def matmul_def mask_translation_def mask_delta_def
  translation_def set_translation_def vsub_def vadd_def set_x_def set_y_def set_z_def
  identity_def Translation_def

lemma upto_1_3: "[1..3] = [1, 2, 3::int]"
  by (simp add: upto_rec1)

section \<open>The claims\<close>

lemma mask_translation_entries:
  "mask_translation cfg b d = Mat4
     (m00 d) (m01 d) (m02 d) (if FIX_X cfg then m03 d else m03 b)
     (m10 d) (m11 d) (m12 d) (if FIX_Y cfg then m13 d else m13 b)
     (m20 d) (m21 d) (m22 d) (if FIX_Z cfg then m23 d else m23 b)
     (m30 d) (m31 d) (m32 d) (m33 d)"
  by (simp add: mask_translation_def mask_delta_def vsub_def vadd_def translation_def
      set_translation_def set_x_def set_y_def set_z_def Let_def)



section \<open>The poses a run reads\<close>

lemma sampled_poses_samples:
  "sampled_poses c (concat (map (sample_events ops arm pb em) hs) @ ys) =
     map (\<lambda>fh. (fst fh, bone_matrix ops (snd fh) pb)) hs
       @ sampled_poses (last (c # map fst hs)) ys"
  by (induction hs arbitrary: c) (simp_all add: sample_events_def)

lemma sampled_poses_phase2:
  "(\<And>d. sampled_poses d ys = []) \<Longrightarrow>
     sampled_poses c (phase2_events minv cfg pb rm S ews fs @ ys) = []"
  by (induction fs arbitrary: c) (simp_all split: option.splits sum.splits)

lemma main_sampled_poses:
  assumes "validate ops cfg st = Inr (em, arm, pb)"
    and "fst (sampling ops cfg em arm pb st) (frame_current st) = Some s0"
  shows "sampled_poses c (run_trace ops cfg st) =
     map (\<lambda>fh. (fst fh, bone_matrix ops (snd fh) pb))
       (sampled_hosts ops [frame_current st..FRAME_END cfg] (host st))"
proof -
  have tail: "sampled_poses d (case phase2_error (matrix_inverted ops) cfg (fst (sampling ops cfg em arm pb st))
             (empty_w s0) [frame_current st..FRAME_END cfg] of
          None \<Rightarrow> closing cfg (frame_current st) | Some fe \<Rightarrow> []) = []" for d
    by (simp add: closing_def split: option.splits)
  show ?thesis
    unfolding main_trace [OF assms]
    by (simp add: header_def sampled_poses_samples sampled_poses_phase2 [OF tail])
qed

lemma scripted_sampled_poses:
  assumes "EMPTY_NAME cfg = ''Empty''" and "frame_current st \<le> FRAME_END cfg"
  shows "sampled_poses c (run_trace (scripted_host a p e r) cfg st) =
     map (\<lambda>f. (f, p f)) [frame_current st..FRAME_END cfg]"
proof -
  have s0: "fst (sampling (scripted_host a p e r) cfg ''Empty'' ''Armature'' ''Bone'' st)
      (frame_current st) = Some \<lparr>arm_w = a (frame_current st),
        bone_w = matmul (a (frame_current st)) (p (frame_current st)),
        empty_w = e (frame_current st)\<rparr>"
    using assms by (simp add: scripted_sampling scripted_samples_def)
  show ?thesis
    using main_sampled_poses [OF scripted_validate [OF assms] s0]
    by (simp add: scripted_sampled_hosts scripted_host_simps comp_def)
qed

lemma sampling_dom:
  "fst (sampling ops cfg em arm pb st) t = Some s \<Longrightarrow>
     t \<in> set [frame_current st..FRAME_END cfg]"
proof (rule ccontr)
  assume a: "fst (sampling ops cfg em arm pb st) t = Some s"
    and "t \<notin> set [frame_current st..FRAME_END cfg]"
  then have "fst (sampling ops cfg em arm pb st) t = Map.empty t"
    unfolding sampling_def by (rule_tac phase1_other)
  with a show False by simp
qed

lemma upto_1_10: "[1..10] = [1, 2, 3, 4, 5, 6, 7, 8, 9, 10::int]"
  by (simp add: upto_rec1)

text \<open>
  C3. In the desired world matrix of a frame, the translation on an axis whose flag is off is
  the translation of the sampled \<open>bone_w\<close> on that axis, whatever the anchor does; on an
  axis whose flag is on it is the translation of \<open>empty_w_start @ ie @ bone_w\<close> on that
  axis, the full correction, \<open>ie\<close> being the matrix \<^verbatim>\<open>inverted()\<close> returned for \<open>empty_w\<close>.
\<close>

theorem axis_mask_translation:
  assumes "desired_world minv cfg ews s = Inr d"
  shows "\<exists>ie. minv (empty_w s) = Some ie \<and>
         vx (translation d) =
           (if FIX_X cfg
            then vx (translation (matmul (matmul ews ie) (bone_w s)))
            else vx (translation (bone_w s))) \<and>
         vy (translation d) =
           (if FIX_Y cfg
            then vy (translation (matmul (matmul ews ie) (bone_w s)))
            else vy (translation (bone_w s))) \<and>
         vz (translation d) =
           (if FIX_Z cfg
            then vz (translation (matmul (matmul ews ie) (bone_w s)))
            else vz (translation (bone_w s)))"
  using assms
  by (auto simp: desired_world_def inverted_def mask_translation_def mask_delta_def vsub_def
      vadd_def translation_def set_translation_def set_x_def set_y_def set_z_def Let_def
      split: if_splits option.splits)

theorem axis_mask_translation_witness:
  "desired_world exact_inverted (config_to 3 False True True) (Translation (Vector 0 0 0))
      \<lparr>arm_w = identity, bone_w = Translation (Vector 2 0 3),
       empty_w = Translation (Vector 10 5 0)\<rparr> = Inr (Translation (Vector 2 (- 5) 3)) \<and>
   exact_inverted (Translation (Vector 10 5 0)) = Some (Translation (Vector (- 10) (- 5) 0)) \<and>
   vx (translation (Translation (Vector 2 (- 5) 3))) = 2 \<and>
   vy (translation (Translation (Vector 2 (- 5) 3))) = - 5 \<and>
   vz (translation (Translation (Vector 2 (- 5) 3))) = 3"
proof -
  have d: "desired_world exact_inverted (config_to 3 False True True) (Translation (Vector 0 0 0))
      \<lparr>arm_w = identity, bone_w = Translation (Vector 2 0 3),
       empty_w = Translation (Vector 10 5 0)\<rparr> = Inr (Translation (Vector 2 (- 5) 3))"
    by (simp add: config_to_def mat_defs)
  have i: "exact_inverted (Translation (Vector 10 5 0)) = Some (Translation (Vector (- 10) (- 5) 0))"
    by (simp add: mat_defs)
  show ?thesis
    using d i axis_mask_translation [OF d] by (simp add: config_to_def mat_defs)
qed

text \<open>
  C4, as stated, fails. In scenario B the bone stands at \<open>(2, 0, 3)\<close> in world space
  while the anchor moves to \<open>(10, 0, 0)\<close>; at frame 10 the desired world translation is
  \<open>(-8, 0, 3)\<close>, not \<open>(2, 0, 3)\<close>, and that is the pose the run commits.
\<close>

theorem scenario_B_counterexample:
  "desired_world exact_inverted (config_to 10 True True True) (Translation (Vector 0 0 0))
      \<lparr>arm_w = identity, bone_w = Translation (Vector 2 0 3),
       empty_w = Translation (Vector 10 0 0)\<rparr> = Inr (Translation (Vector (- 8) 0 3)) \<and>
   translation (Translation (Vector (- 8) 0 3)) \<noteq> Vector 2 0 3 \<and>
   commits 1 (run_trace scenario_B (config_to 10 True True True) (start_state 1)) ! 9 =
     (10, Translation (Vector (- 8) 0 3))"
proof -
  have "commits 1 (run_trace scenario_B (config_to 10 True True True) (start_state 1)) ! 9 =
     (10, Translation (Vector (- 8) 0 3))"
    unfolding scenario_B_def
    by (subst scripted_commits)
       (simp_all add: config_to_def start_state_def upto_1_10 scripted_samples_def mat_defs)
  then show ?thesis
    by (simp add: config_to_def mat_defs)
qed

text \<open>
  C4, amended. With the anchor a pure translation by \<open>10 (t - 1) / 9\<close> along X at frame
  \<open>t\<close> (the origin at frame 1), the bone a pure translation to \<open>(2, 0, 3)\<close> and all three
  axes selected, the corrected world translation at frame \<open>t\<close> is
  \<open>(2 - 10 (t - 1) / 9, 0, 3)\<close>: the anchor's displacement is subtracted from the bone.
\<close>

theorem scenario_B_translation:
  assumes "1 \<le> t" and "t \<le> 10"
    and "empty_w_start = Translation (Vector 0 0 0)"
    and "empty_w s = Translation (Vector (10 * (real_of_int t - 1) / 9) 0 0)"
    and "bone_w s = Translation (Vector 2 0 3)"
    and "FIX_X cfg" and "FIX_Y cfg" and "FIX_Z cfg"
  shows "\<exists>d. desired_world exact_inverted cfg empty_w_start s = Inr d \<and>
           translation d = Vector (2 - 10 * (real_of_int t - 1) / 9) 0 3"
  using assms by (simp add: mat_defs Let_def)

theorem scenario_B_translation_witness:
  "(1::int) \<le> 10 \<and> (10::int) \<le> 10 \<and>
   (\<exists>d. desired_world exact_inverted (config_to 10 True True True) (Translation (Vector 0 0 0))
          \<lparr>arm_w = identity, bone_w = Translation (Vector 2 0 3),
           empty_w = Translation (Vector 10 0 0)\<rparr> = Inr d \<and>
        translation d = Vector (2 - 10 * (real_of_int 10 - 1) / 9) 0 3)"
proof -
  have "\<exists>d. desired_world exact_inverted (config_to 10 True True True) (Translation (Vector 0 0 0))
          \<lparr>arm_w = identity, bone_w = Translation (Vector 2 0 3),
           empty_w = Translation (Vector 10 0 0)\<rparr> = Inr d \<and>
        translation d = Vector (2 - 10 * (real_of_int 10 - 1) / 9) 0 3"
    by (rule scenario_B_translation [of 10]) (simp_all add: config_to_def)
  then show ?thesis by simp
qed

section \<open>Keyframes, reads and the clock\<close>

lemma keyframes_append: "keyframes (xs @ ys) = keyframes xs @ keyframes ys"
  by (induction xs rule: keyframes.induct) simp_all

lemma keyframes_samples: "keyframes (concat (map (sample_events ops arm pb em) hs)) = []"
  by (induction hs) (simp_all add: sample_events_def)

lemma keyframes_phase2:
  "keyframes (phase2_events minv cfg pb rm S ews fs) =
     concat (map (\<lambda>(t, m). [(''location'', t), (rotation_path rm, t)]) (committed minv cfg S ews fs))"
  by (induction fs) (simp_all split: option.splits sum.splits)

lemma main_keyframes:
  assumes "validate ops cfg st = Inr (em, arm, pb)"
    and "fst (sampling ops cfg em arm pb st) (frame_current st) = Some s0"
  shows "keyframes (run_trace ops cfg st) =
     concat (map (\<lambda>(t, m). [(''location'', t), (rotation_path (rotation_mode ops (host st) pb), t)])
       (committed (matrix_inverted ops) cfg (fst (sampling ops cfg em arm pb st)) (empty_w s0)
          [frame_current st..FRAME_END cfg]))"
  unfolding main_trace [OF assms]
  by (simp add: keyframes_append keyframes_samples keyframes_phase2 header_def closing_def
      split: option.splits)

lemma read_frames_noread: "\<forall>e\<in>set ys. \<not> is_read e \<Longrightarrow> read_frames c ys = []"
  by (induction c ys rule: read_frames.induct) simp_all

lemma read_frames_append_noread:
  "\<forall>e\<in>set ys. \<not> is_read e \<Longrightarrow> read_frames c (xs @ ys) = read_frames c xs"
  by (induction c xs rule: read_frames.induct) (simp_all add: read_frames_noread)

lemma read_frames_samples:
  "\<forall>e\<in>set ys. \<not> is_read e \<Longrightarrow>
     read_frames c (concat (map (sample_events ops arm pb em) hs) @ ys) =
       concat (map (\<lambda>f. [f, f, f]) (map fst hs))"
  by (induction hs arbitrary: c) (simp_all add: sample_events_def read_frames_noread)

lemma samples_no_commit:
  "list_all (\<lambda>e. \<not> is_commit e) (concat (map (sample_events ops arm pb em) hs))"
  by (induction hs) (simp_all add: sample_events_def)

lemma phase2_no_read: "list_all (\<lambda>e. \<not> is_read e) (phase2_events minv cfg pb rm S ews fs)"
  by (induction fs) (simp_all split: option.splits sum.splits)

lemma commits_exist: "commits c es \<noteq> [] \<Longrightarrow> \<exists>e\<in>set es. is_commit e"
  by (induction c es rule: commits.induct) auto

lemma samples_no_report:
  "list_all (\<lambda>e. \<not> is_error_report e) (concat (map (sample_events ops arm pb em) hs))"
  by (induction hs) (simp_all add: sample_events_def)

lemma phase2_no_report:
  "list_all (\<lambda>e. \<not> is_error_report e) (phase2_events minv cfg pb rm S ews fs)"
  by (induction fs) (simp_all split: option.splits sum.splits)

lemma main_no_report:
  assumes "validate ops cfg st = Inr (em, arm, pb)"
  shows "list_all (\<lambda>e. \<not> is_error_report e) (run_trace ops cfg st)"
proof -
  obtain s0 where s0: "fst (sampling ops cfg em arm pb st) (frame_current st) = Some s0"
    using sampling_first [OF assms] by blast
  show ?thesis
    unfolding main_trace [OF assms s0]
    by (simp add: header_def closing_def samples_no_report phase2_no_report split: option.splits)
qed

text \<open>
  C10. The keyframes of a run are, for each pose committed and in the same order, one on
  \<open>location\<close> and one on the rotation path of the bone's rotation mode
  (\<open>rotation_quaternion\<close>, \<open>rotation_axis_angle\<close>, else \<open>rotation_euler\<close>), both at the
  frame of the pose; none is on \<open>scale\<close>.
\<close>

theorem keyframe_channels:
  assumes v: "validate ops cfg st = Inr (em, arm, pb)"
  shows "keyframes (run_trace ops cfg st) =
           concat (map (\<lambda>(t, m). [(''location'', t),
                                 (rotation_path (rotation_mode ops (host st) pb), t)])
                     (commits c (run_trace ops cfg st))) \<and>
         rotation_path (rotation_mode ops (host st) pb) =
           (if rotation_mode ops (host st) pb = ''QUATERNION'' then ''rotation_quaternion''
            else if rotation_mode ops (host st) pb = ''AXIS_ANGLE'' then ''rotation_axis_angle''
            else ''rotation_euler'') \<and>
         (\<forall>(path, f) \<in> set (keyframes (run_trace ops cfg st)). path \<noteq> ''scale'')"
proof -
  obtain s0 where s0: "fst (sampling ops cfg em arm pb st) (frame_current st) = Some s0"
    using sampling_first [OF v] by blast
  have k: "keyframes (run_trace ops cfg st) =
           concat (map (\<lambda>(t, m). [(''location'', t),
                                 (rotation_path (rotation_mode ops (host st) pb), t)])
                     (commits c (run_trace ops cfg st)))"
    by (simp add: main_keyframes [OF v s0] main_commits [OF v s0])
  have "path \<noteq> ''scale''" if "(path, f) \<in> set (keyframes (run_trace ops cfg st))" for path f
    using that unfolding k by (auto simp: rotation_path_def split: if_splits)
  with k show ?thesis
    by (auto simp: rotation_path_def)
qed

theorem keyframe_channels_witness:
  "validate scenario_B (config_to 3 True True True) (start_state 1) =
     Inr (''Empty'', ''Armature'', ''Bone'') \<and>
   commits 1 (run_trace scenario_B (config_to 3 True True True) (start_state 1)) =
     [(1, Translation (Vector 2 0 3)), (2, Translation (Vector (8 / 9) 0 3)),
      (3, Translation (Vector (- 2 / 9) 0 3))] \<and>
   keyframes (run_trace scenario_B (config_to 3 True True True) (start_state 1)) =
     [(''location'', 1), (''rotation_quaternion'', 1), (''location'', 2),
      (''rotation_quaternion'', 2), (''location'', 3), (''rotation_quaternion'', 3)] \<and>
   ''scale'' \<notin> fst ` set (keyframes (run_trace scenario_B (config_to 3 True True True)
        (start_state 1)))"
proof -
  have v: "validate scenario_B (config_to 3 True True True) (start_state 1) =
      Inr (''Empty'', ''Armature'', ''Bone'')"
    unfolding scenario_B_def
    by (rule scripted_validate) (simp_all add: config_to_def start_state_def)
  have cm: "commits 1 (run_trace scenario_B (config_to 3 True True True) (start_state 1)) =
     [(1, Translation (Vector 2 0 3)), (2, Translation (Vector (8 / 9) 0 3)),
      (3, Translation (Vector (- 2 / 9) 0 3))]"
    unfolding scenario_B_def
    by (subst scripted_commits)
       (simp_all add: config_to_def start_state_def upto_1_3 scripted_samples_def mat_defs)
  have rm: "rotation_mode scenario_B (host (start_state 1)) ''Bone'' = ''QUATERNION''"
    by (simp add: scenario_B_def scripted_host_simps)
  note k = keyframe_channels [OF v, of 1]
  have kf: "keyframes (run_trace scenario_B (config_to 3 True True True) (start_state 1)) =
     [(''location'', 1), (''rotation_quaternion'', 1), (''location'', 2),
      (''rotation_quaternion'', 2), (''location'', 3), (''rotation_quaternion'', 3)]"
    using k by (simp add: cm rm rotation_path_def)
  from k have sc: "''scale'' \<notin> fst ` set (keyframes (run_trace scenario_B
        (config_to 3 True True True) (start_state 1)))"
    by fastforce
  show ?thesis
    by (rule conjI [OF v conjI [OF cm conjI [OF kf sc]]])
qed

text \<open>
  C9. In the trace of a run no transform is read from the first pose write or keyframe on,
  and before it the three transforms have been read at every frame of the range, in order.
\<close>

theorem two_passes:
  "(\<forall>e \<in> set (dropWhile (\<lambda>e. \<not> is_commit e) (run_trace ops cfg st)). \<not> is_read e) \<and>
   (validate ops cfg st = Inr (em, arm, pb) \<longrightarrow>
      read_frames c (takeWhile (\<lambda>e. \<not> is_commit e) (run_trace ops cfg st)) =
        concat (map (\<lambda>f. [f, f, f]) [frame_current st..FRAME_END cfg]))"
proof (cases "validate ops cfg st")
  case (Inl msg)
  then have "run_trace ops cfg st = [Print msg]"
    by (simp add: run_trace_def main_invalid)
  with Inl show ?thesis by simp
next
  case (Inr sel)
  obtain em' arm' pb' where sel: "sel = (em', arm', pb')" by (cases sel)
  with Inr have v: "validate ops cfg st = Inr (em', arm', pb')" by simp
  obtain s0 where s0: "fst (sampling ops cfg em' arm' pb' st) (frame_current st) = Some s0"
    using sampling_first [OF v] by blast
  define A where "A = header cfg arm' pb' (rotation_mode ops (host st) pb') (frame_current st)
     @ [Print InfoPhase1]
     @ concat (map (sample_events ops arm' pb' em')
           (sampled_hosts ops [frame_current st..FRAME_END cfg] (host st)))
     @ [Print (InfoReference (translation (empty_w s0))), Print InfoPhase2]"
  define B where "B = phase2_events (matrix_inverted ops) cfg pb' (rotation_mode ops (host st) pb')
         (fst (sampling ops cfg em' arm' pb' st)) (empty_w s0) [frame_current st..FRAME_END cfg]
     @ (case phase2_error (matrix_inverted ops) cfg (fst (sampling ops cfg em' arm' pb' st)) (empty_w s0)
             [frame_current st..FRAME_END cfg] of
          None \<Rightarrow> closing cfg (frame_current st) | Some fe \<Rightarrow> [])"
  have tr: "run_trace ops cfg st = A @ B"
    unfolding main_trace [OF v s0] A_def B_def by simp
  have "list_all (\<lambda>e. \<not> is_commit e) A"
    unfolding A_def header_def by (simp add: samples_no_commit)
  then have A: "\<not> is_commit e" if "e \<in> set A" for e
    using that by (simp add: list_all_iff)
  have "list_all (\<lambda>e. \<not> is_read e) B"
    unfolding B_def closing_def by (simp add: phase2_no_read split: option.splits)
  then have B: "\<not> is_read e" if "e \<in> set B" for e
    using that by (simp add: list_all_iff)
  have tw: "takeWhile (\<lambda>e. \<not> is_commit e) (A @ B) = A @ takeWhile (\<lambda>e. \<not> is_commit e) B"
    by (rule takeWhile_append2) (rule A)
  have dw: "dropWhile (\<lambda>e. \<not> is_commit e) (A @ B) = dropWhile (\<lambda>e. \<not> is_commit e) B"
    by (rule dropWhile_append2) (rule A)
  have 1: "\<forall>e \<in> set (dropWhile (\<lambda>e. \<not> is_commit e) (run_trace ops cfg st)). \<not> is_read e"
    unfolding tr dw using B set_dropWhileD by fast
  have nb: "\<forall>e\<in>set (takeWhile (\<lambda>e. \<not> is_commit e) B). \<not> is_read e"
    using B set_takeWhileD by fast
  have rA: "read_frames c A = concat (map (\<lambda>f. [f, f, f]) [frame_current st..FRAME_END cfg])"
    unfolding A_def header_def
    by (simp add: read_frames_samples sampled_hosts_frames)
  have 2: "read_frames c (takeWhile (\<lambda>e. \<not> is_commit e) (run_trace ops cfg st)) =
        concat (map (\<lambda>f. [f, f, f]) [frame_current st..FRAME_END cfg])"
    unfolding tr tw by (simp add: read_frames_append_noread [OF nb] rA)
  from 1 2 show ?thesis by simp
qed

theorem two_passes_witness:
  "validate scenario_B (config_to 3 True True True) (start_state 1) = Inr (''Empty'', ''Armature'', ''Bone'') \<and>
   (\<exists>e\<in>set (run_trace scenario_B (config_to 3 True True True) (start_state 1)). is_commit e) \<and>
   list_all (\<lambda>e. \<not> is_read e) (dropWhile (\<lambda>e. \<not> is_commit e) (run_trace scenario_B (config_to 3 True True True) (start_state 1))) \<and>
   read_frames 1 (takeWhile (\<lambda>e. \<not> is_commit e) (run_trace scenario_B (config_to 3 True True True) (start_state 1))) = [1, 1, 1, 2, 2, 2, 3, 3, 3]"
proof -
  have v: "validate scenario_B (config_to 3 True True True) (start_state 1) = Inr (''Empty'', ''Armature'', ''Bone'')"
    unfolding scenario_B_def
    by (rule scripted_validate) (simp_all add: config_to_def start_state_def)
  have "commits 1 (run_trace scenario_B (config_to 3 True True True) (start_state 1)) \<noteq> []"
    unfolding scenario_B_def
    by (subst scripted_commits)
       (simp_all add: config_to_def start_state_def upto_1_3 scripted_samples_def mat_defs)
  then have ex: "\<exists>e\<in>set (run_trace scenario_B (config_to 3 True True True) (start_state 1)). is_commit e"
    by (rule commits_exist)
  note T = two_passes [of scenario_B "config_to 3 True True True" "start_state 1"
      "''Empty''" "''Armature''" "''Bone''" 1]
  from T have a: "list_all (\<lambda>e. \<not> is_read e)
      (dropWhile (\<lambda>e. \<not> is_commit e) (run_trace scenario_B (config_to 3 True True True) (start_state 1)))"
    by (simp add: list_all_iff)
  from T v have "read_frames 1 (takeWhile (\<lambda>e. \<not> is_commit e) (run_trace scenario_B (config_to 3 True True True) (start_state 1))) =
      concat (map (\<lambda>f. [f, f, f])
        [frame_current (start_state 1)..FRAME_END (config_to 3 True True True)])"
    by blast
  then have b: "read_frames 1 (takeWhile (\<lambda>e. \<not> is_commit e) (run_trace scenario_B (config_to 3 True True True) (start_state 1))) =
      [1, 1, 1, 2, 2, 2, 3, 3, 3]"
    by (simp add: config_to_def start_state_def upto_1_3)
  show ?thesis
    by (rule conjI [OF v conjI [OF ex conjI [OF a b]]])
qed

text \<open>
  C8, as stated, fails. When \<^verbatim>\<open>inverted()\<close> raises at frame 2 of a run started at frame 1,
  the exception leaves \<^verbatim>\<open>main()\<close> with the clock at frame 2.
\<close>

theorem clock_not_restored_counterexample:
  "fst (main degenerate_anchor (config_to 3 True True True) (start_state 1)) = Raised ValueError \<and>
   frame_current (start_state 1) = 1 \<and>
   frame_current (snd (main degenerate_anchor (config_to 3 True True True) (start_state 1))) = 2"
proof -
  have 1: "fst (main degenerate_anchor (config_to 3 True True True) (start_state 1)) = Raised ValueError"
    unfolding degenerate_anchor_def
    by (subst scripted_outcome)
       (simp_all add: config_to_def start_state_def upto_1_3 scripted_samples_def mat_defs
          flat_x_def)
  have 2: "frame_current (snd (main degenerate_anchor (config_to 3 True True True) (start_state 1))) = 2"
    unfolding degenerate_anchor_def
    by (subst scripted_clock)
       (simp_all add: config_to_def start_state_def upto_1_3 scripted_samples_def mat_defs
          flat_x_def)
  from 1 2 show ?thesis by (simp add: start_state_def)
qed

text \<open>
  C8, amended. After a run that completes, or that returns early on a validation error, the
  current frame is the one the run started at.
\<close>

theorem clock_restored:
  assumes "fst (main ops cfg st) = Completed \<or> fst (main ops cfg st) = Returned"
  shows "frame_current (snd (main ops cfg st)) = frame_current st"
proof (cases "validate ops cfg st")
  case (Inl msg)
  then show ?thesis by (simp add: main_invalid)
next
  case (Inr sel)
  obtain em arm pb where sel: "sel = (em, arm, pb)" by (cases sel)
  with Inr have v: "validate ops cfg st = Inr (em, arm, pb)" by simp
  obtain s0 where s0: "fst (sampling ops cfg em arm pb st) (frame_current st) = Some s0"
    using sampling_first [OF v] by blast
  from assms main_outcome [OF v s0]
  have "phase2_error (matrix_inverted ops) cfg (fst (sampling ops cfg em arm pb st)) (empty_w s0)
      [frame_current st..FRAME_END cfg] = None"
    by (auto split: option.splits prod.splits)
  with main_clock [OF v s0] show ?thesis by simp
qed

theorem clock_restored_witness:
  "(fst (main scenario_B (config_to 3 True True True) (start_state 1)) = Completed \<or> fst (main scenario_B (config_to 3 True True True) (start_state 1)) = Returned) \<and>
   frame_current (snd (main scenario_B (config_to 3 True True True) (start_state 1))) = frame_current (start_state 1) \<and>
   (fst (main scenario_B (config_to 3 True True True) (start_state 5)) = Completed \<or>
    fst (main scenario_B (config_to 3 True True True) (start_state 5)) = Returned) \<and>
   frame_current (snd (main scenario_B (config_to 3 True True True) (start_state 5))) =
     frame_current (start_state 5)"
proof -
  have "fst (main scenario_B (config_to 3 True True True) (start_state 1)) = Completed"
    unfolding scenario_B_def
    by (subst scripted_outcome)
       (simp_all add: config_to_def start_state_def upto_1_3 scripted_samples_def mat_defs)
  then have a: "fst (main scenario_B (config_to 3 True True True) (start_state 1)) = Completed \<or> fst (main scenario_B (config_to 3 True True True) (start_state 1)) = Returned" ..
  have "validate scenario_B (config_to 3 True True True) (start_state 5) = Inl (ErrFrameRange 5 3)"
    by (simp add: validate_def scenario_B_def scripted_host_simps config_to_def start_state_def)
  then have "fst (main scenario_B (config_to 3 True True True) (start_state 5)) = Returned"
    by (simp add: main_invalid)
  then have b: "fst (main scenario_B (config_to 3 True True True) (start_state 5)) = Completed \<or>
    fst (main scenario_B (config_to 3 True True True) (start_state 5)) = Returned" ..
  show ?thesis
    by (rule conjI [OF a conjI [OF clock_restored [OF a] conjI [OF b clock_restored [OF b]]]])
qed

section \<open>Runs that raise, and the rotation block\<close>

lemma sampling_total:
  assumes "u \<in> set [frame_current st..FRAME_END cfg]"
  shows "\<exists>s. fst (sampling ops cfg em arm pb st) u = Some s"
proof -
  from assms have "u \<in> set (map fst (sampled_hosts ops [frame_current st..FRAME_END cfg] (host st)))"
    by (simp only: sampled_hosts_frames)
  then obtain h where "(u, h) \<in> set (sampled_hosts ops [frame_current st..FRAME_END cfg] (host st))"
    by auto
  from sampling_at [OF this] show ?thesis by blast
qed

lemma corrected_pose_invertible:
  "minv (empty_w s) = Some ie \<Longrightarrow> minv (arm_w s) = Some ia \<Longrightarrow>
     \<exists>m. corrected_pose minv cfg ews s = Inr m"
  by (simp add: corrected_pose_def desired_world_def inverted_def)

lemma corrected_pose_singular:
  "minv (empty_w s) = None \<or> minv (arm_w s) = None \<Longrightarrow>
     corrected_pose minv cfg ews s = Inl ValueError"
  by (auto simp add: corrected_pose_def desired_world_def inverted_def split: option.splits)

lemma phase2_prefix:
  assumes "\<And>u. u \<in> set pre \<Longrightarrow> \<exists>s m. S u = Some s \<and> corrected_pose minv cfg ews s = Inr m"
  shows "phase2_error minv cfg S ews (pre @ rest) = phase2_error minv cfg S ews rest \<and>
         committed minv cfg S ews (pre @ rest) = committed minv cfg S ews pre @ committed minv cfg S ews rest \<and>
         map fst (committed minv cfg S ews pre) = pre"
  using assms
proof (induction pre)
  case Nil
  then show ?case by simp
next
  case (Cons f fs)
  from Cons.prems [of f] obtain s m where f: "S f = Some s" "corrected_pose minv cfg ews s = Inr m"
    by auto
  have "\<And>u. u \<in> set fs \<Longrightarrow> \<exists>s m. S u = Some s \<and> corrected_pose minv cfg ews s = Inr m"
    using Cons.prems by simp
  from Cons.IH [OF this] f show ?case by simp
qed

lemma keyframe_frames:
  "map snd (concat (map (\<lambda>(t, m). [(a, t), (b, t)]) xs)) = concat (map (\<lambda>f. [f, f]) (map fst xs))"
  by (induction xs) auto

lemma rot_block_mask:
  "rot_block (matmul q (mask_translation cfg x d)) = rot_block (matmul q d)"
  by (cases q) (simp add: mask_translation_entries rot_block_def matmul_def)

lemma rot_block_translated:
  "affine x \<Longrightarrow> rot_block (matmul q (matmul (Translation v) x)) = rot_block (matmul q x)"
  by (cases x; cases q) (simp add: affine_def rot_block_def matmul_def Translation_def)

lemma upto_1_2: "[1..2] = [1, 2::int]"
  by (simp add: upto_rec1)

text \<open>
  C7, as stated, fails. With the anchor's matrix singular at frame 2, \<^verbatim>\<open>inverted()\<close> raises
  \<^verbatim>\<open>ValueError\<close>, which leaves \<^verbatim>\<open>main()\<close> uncaught; the script prints no error line, and the
  pose committed at frame 1 stays.
\<close>

theorem singular_not_reported_counterexample:
  "fst (main degenerate_anchor (config_to 3 True True True) (start_state 1)) = Raised ValueError \<and>
   list_all (\<lambda>e. \<not> is_error_report e) (run_trace degenerate_anchor (config_to 3 True True True) (start_state 1)) \<and>
   commits 1 (run_trace degenerate_anchor (config_to 3 True True True) (start_state 1)) = [(1, Translation (Vector 2 0 3))]"
proof -
  have 1: "fst (main degenerate_anchor (config_to 3 True True True) (start_state 1)) = Raised ValueError"
    unfolding degenerate_anchor_def
    by (subst scripted_outcome)
       (simp_all add: config_to_def start_state_def upto_1_3 scripted_samples_def mat_defs
          flat_x_def)
  have v: "validate degenerate_anchor (config_to 3 True True True) (start_state 1) = Inr (''Empty'', ''Armature'', ''Bone'')"
    unfolding degenerate_anchor_def
    by (rule scripted_validate) (simp_all add: config_to_def start_state_def)
  have 3: "commits 1 (run_trace degenerate_anchor (config_to 3 True True True) (start_state 1)) = [(1, Translation (Vector 2 0 3))]"
    unfolding degenerate_anchor_def
    by (subst scripted_commits)
       (simp_all add: config_to_def start_state_def upto_1_3 scripted_samples_def mat_defs
          flat_x_def)
  from 1 main_no_report [OF v] 3 show ?thesis by blast
qed

text \<open>
  C7, amended. If \<open>t\<close> is the first frame of the range at which \<^verbatim>\<open>inverted()\<close> finds no
  inverse for the sampled anchor or armature matrix, the run ends with \<^verbatim>\<open>ValueError\<close> raised
  out of \<^verbatim>\<open>main()\<close>: poses and keyframes have been committed for exactly the frames before
  \<open>t\<close>, none for \<open>t\<close> or later, the clock stands at \<open>t\<close>, and the script has printed no
  error line. Which matrices the library finds no inverse for is the library's matter.
\<close>

theorem singular_transform_raises:
  assumes v: "validate ops cfg st = Inr (em, arm, pb)"
    and at: "fst (sampling ops cfg em arm pb st) t = Some s"
    and sing: "matrix_inverted ops (empty_w s) = None \<or> matrix_inverted ops (arm_w s) = None"
    and first: "\<forall>u s'. u < t \<longrightarrow> fst (sampling ops cfg em arm pb st) u = Some s' \<longrightarrow>
                  matrix_inverted ops (empty_w s') \<noteq> None \<and>
                  matrix_inverted ops (arm_w s') \<noteq> None"
  shows "fst (main ops cfg st) = Raised ValueError \<and>
         map fst (commits c (run_trace ops cfg st)) = [frame_current st..t - 1] \<and>
         map snd (keyframes (run_trace ops cfg st)) =
           concat (map (\<lambda>f. [f, f]) [frame_current st..t - 1]) \<and>
         frame_current (snd (main ops cfg st)) = t \<and>
         list_all (\<lambda>e. \<not> is_error_report e) (run_trace ops cfg st)"
proof -
  let ?S = "fst (sampling ops cfg em arm pb st)"
  let ?pre = "[frame_current st..t - 1]"
  let ?post = "[t + 1..FRAME_END cfg]"
  let ?inv = "matrix_inverted ops"
  obtain s0 where s0: "?S (frame_current st) = Some s0"
    using sampling_first [OF v] by blast
  let ?ews = "empty_w s0"
  from sampling_dom [OF at] have range: "frame_current st \<le> t" "t \<le> FRAME_END cfg"
    by simp_all
  then have split: "[frame_current st..FRAME_END cfg] = ?pre @ t # ?post"
    by (rule upto_split3)
  have pre: "\<exists>s' m. ?S u = Some s' \<and> corrected_pose ?inv cfg ?ews s' = Inr m"
    if "u \<in> set ?pre" for u
  proof -
    from that range have "u \<in> set [frame_current st..FRAME_END cfg]" and "u < t" by auto
    from sampling_total [OF this(1)] obtain s' where s': "?S u = Some s'" by blast
    with first \<open>u < t\<close> obtain ie ia where "?inv (empty_w s') = Some ie" "?inv (arm_w s') = Some ia"
      by fastforce
    from corrected_pose_invertible [OF this] s' show ?thesis by blast
  qed
  note P = phase2_prefix [of ?pre ?S ?inv cfg ?ews "t # ?post", OF pre]
  have bad: "corrected_pose ?inv cfg ?ews s = Inl ValueError"
    by (rule corrected_pose_singular [OF sing])
  have err: "phase2_error ?inv cfg ?S ?ews [frame_current st..FRAME_END cfg] = Some (t, ValueError)"
    unfolding split using P at bad by simp
  have com: "map fst (committed ?inv cfg ?S ?ews [frame_current st..FRAME_END cfg]) = ?pre"
    unfolding split using P at bad by simp
  have 1: "fst (main ops cfg st) = Raised ValueError"
    using main_outcome [OF v s0] err by simp
  have 2: "map fst (commits c (run_trace ops cfg st)) = ?pre"
    using main_commits [OF v s0] com by simp
  have 3: "map snd (keyframes (run_trace ops cfg st)) = concat (map (\<lambda>f. [f, f]) ?pre)"
    unfolding main_keyframes [OF v s0] keyframe_frames com ..
  have 4: "frame_current (snd (main ops cfg st)) = t"
    using main_clock [OF v s0] err by simp
  from 1 2 3 4 main_no_report [OF v] show ?thesis by blast
qed

theorem singular_transform_raises_witness:
  "validate degenerate_anchor (config_to 3 True True True) (start_state 1) = Inr (''Empty'', ''Armature'', ''Bone'') \<and>
   fst (sampling degenerate_anchor (config_to 3 True True True) ''Empty'' ''Armature'' ''Bone''
          (start_state 1)) 2 =
     Some \<lparr>arm_w = identity, bone_w = Translation (Vector 2 0 3), empty_w = flat_x\<rparr> \<and>
   matrix_inverted degenerate_anchor flat_x = None \<and>
   matrix_inverted degenerate_anchor identity = Some identity \<and>
   fst (main degenerate_anchor (config_to 3 True True True) (start_state 1)) = Raised ValueError \<and>
   map fst (commits 1 (run_trace degenerate_anchor (config_to 3 True True True) (start_state 1))) = [1] \<and>
   map snd (keyframes (run_trace degenerate_anchor (config_to 3 True True True) (start_state 1))) = [1, 1] \<and>
   frame_current (snd (main degenerate_anchor (config_to 3 True True True) (start_state 1))) = 2 \<and>
   list_all (\<lambda>e. \<not> is_error_report e) (run_trace degenerate_anchor (config_to 3 True True True) (start_state 1))"
proof -
  let ?s = "\<lparr>arm_w = identity, bone_w = Translation (Vector 2 0 3), empty_w = flat_x\<rparr>"
  have v: "validate degenerate_anchor (config_to 3 True True True) (start_state 1) = Inr (''Empty'', ''Armature'', ''Bone'')"
    unfolding degenerate_anchor_def
    by (rule scripted_validate) (simp_all add: config_to_def start_state_def)
  have at: "fst (sampling degenerate_anchor (config_to 3 True True True) ''Empty'' ''Armature''
      ''Bone'' (start_state 1)) 2 = Some ?s"
    unfolding degenerate_anchor_def
    by (simp add: scripted_sampling scripted_samples_def config_to_def start_state_def
        matmul_identity_left)
  have d: "matrix_inverted degenerate_anchor flat_x = None"
    by (simp add: degenerate_anchor_def scripted_host_simps exact_inverted_def flat_x_def
        determinant_def det3_def)
  have i: "matrix_inverted degenerate_anchor identity = Some identity"
    by (simp add: degenerate_anchor_def scripted_host_simps mat_defs)
  from d have sing: "matrix_inverted degenerate_anchor (empty_w ?s) = None \<or>
      matrix_inverted degenerate_anchor (arm_w ?s) = None"
    by simp
  have first: "\<forall>u s'. u < 2 \<longrightarrow>
      fst (sampling degenerate_anchor (config_to 3 True True True) ''Empty'' ''Armature''
        ''Bone'' (start_state 1)) u = Some s' \<longrightarrow>
      matrix_inverted degenerate_anchor (empty_w s') \<noteq> None \<and>
      matrix_inverted degenerate_anchor (arm_w s') \<noteq> None"
    unfolding degenerate_anchor_def
    by (auto simp add: scripted_sampling scripted_samples_def scripted_host_simps
        exact_inverted_def identity_def determinant_def det3_def split: if_splits)
  note T = singular_transform_raises [OF v at sing first, of 1]
  from T have 1: "fst (main degenerate_anchor (config_to 3 True True True) (start_state 1)) = Raised ValueError" by blast
  from T have 2: "map fst (commits 1 (run_trace degenerate_anchor (config_to 3 True True True) (start_state 1))) = [1]"
    by (simp add: start_state_def)
  from T have 3: "map snd (keyframes (run_trace degenerate_anchor (config_to 3 True True True) (start_state 1))) = [1, 1]"
    by (simp add: start_state_def)
  from T have 4: "frame_current (snd (main degenerate_anchor (config_to 3 True True True) (start_state 1))) = 2" by blast
  from T have 5: "list_all (\<lambda>e. \<not> is_error_report e) (run_trace degenerate_anchor (config_to 3 True True True) (start_state 1))" by blast
  show ?thesis
    by (rule conjI [OF v conjI [OF at conjI [OF d conjI [OF i conjI [OF 1 conjI [OF 2
          conjI [OF 3 conjI [OF 4 5]]]]]]]])
qed

text \<open>
  C2, as stated, fails. With an anchor that turns a quarter turn about Z between frames 1 and
  2, the bone's pose read at frame 2 is the identity and the pose committed there is the
  inverse quarter turn.
\<close>

theorem rotation_changed_counterexample:
  "sampled_poses 1 (run_trace rotating_anchor (config_to 2 True True True) (start_state 1)) = [(1, identity), (2, identity)] \<and>
   commits 1 (run_trace rotating_anchor (config_to 2 True True True) (start_state 1)) =
     [(1, identity), (2, Mat4 0 1 0 0  (- 1) 0 0 0  0 0 1 0  0 0 0 1)] \<and>
   rot_block (Mat4 0 1 0 0  (- 1) 0 0 0  0 0 1 0  0 0 0 1) \<noteq> rot_block identity"
proof -
  have 1: "sampled_poses 1 (run_trace rotating_anchor (config_to 2 True True True) (start_state 1)) = [(1, identity), (2, identity)]"
    unfolding rotating_anchor_def
    by (subst scripted_sampled_poses) (simp_all add: config_to_def start_state_def upto_1_2)
  have 2: "commits 1 (run_trace rotating_anchor (config_to 2 True True True) (start_state 1)) =
     [(1, identity), (2, Mat4 0 1 0 0  (- 1) 0 0 0  0 0 1 0  0 0 0 1)]"
    unfolding rotating_anchor_def
    by (subst scripted_commits)
       (simp_all add: config_to_def start_state_def upto_1_2 scripted_samples_def mat_defs
          quarter_turn_z_def)
  have 3: "rot_block (Mat4 0 1 0 0  (- 1) 0 0 0  0 0 1 0  0 0 0 1) \<noteq> rot_block identity"
    by (simp add: rot_block_def identity_def)
  from 1 2 3 show ?thesis by blast
qed

text \<open>
  C2, amended. The 3x3 rotation and scale block of the pose committed at a frame is that of
  \<open>ia @ (empty_w_start @ ie @ bone_w)\<close>, with \<open>ie\<close> and \<open>ia\<close> the matrices \<^verbatim>\<open>inverted()\<close>
  returned for the anchor and the armature: the axis mask changes the translation column
  only. When \<open>empty_w_start @ ie\<close> is a pure translation and \<open>bone_w\<close> is affine, it is the
  block of \<open>ia @ bone_w\<close>: the bone's sampled world rotation, taken to armature space, is
  not altered.
\<close>

theorem rotation_block_of_commit:
  assumes v: "validate ops cfg st = Inr (em, arm, pb)"
    and s0: "fst (sampling ops cfg em arm pb st) (frame_current st) = Some s0"
    and s: "fst (sampling ops cfg em arm pb st) t = Some s"
    and cm: "(t, m) \<in> set (commits c (run_trace ops cfg st))"
  shows "\<exists>ie ia.
     matrix_inverted ops (empty_w s) = Some ie \<and> matrix_inverted ops (arm_w s) = Some ia \<and>
     rot_block m = rot_block (matmul ia (matmul (matmul (empty_w s0) ie) (bone_w s))) \<and>
     ((\<exists>d. matmul (empty_w s0) ie = Translation d) \<and> affine (bone_w s) \<longrightarrow>
      rot_block m = rot_block (matmul ia (bone_w s)))"
proof -
  from cm have "(t, m) \<in> set (committed (matrix_inverted ops) cfg
      (fst (sampling ops cfg em arm pb st)) (empty_w s0) [frame_current st..FRAME_END cfg])"
    by (simp add: main_commits [OF v s0])
  from committed_mem [OF this] s
  have "corrected_pose (matrix_inverted ops) cfg (empty_w s0) s = Inr m"
    by auto
  from corrected_pose_Inr [OF this] obtain ie ia
    where ie: "matrix_inverted ops (empty_w s) = Some ie"
      and ia: "matrix_inverted ops (arm_w s) = Some ia"
      and m: "m = matmul ia (mask_translation cfg (bone_w s)
                 (matmul (matmul (empty_w s0) ie) (bone_w s)))"
    by blast
  have A: "rot_block m = rot_block (matmul ia (matmul (matmul (empty_w s0) ie) (bone_w s)))"
    unfolding m by (rule rot_block_mask)
  have B: "rot_block m = rot_block (matmul ia (bone_w s))"
    if "\<exists>d. matmul (empty_w s0) ie = Translation d" and ab: "affine (bone_w s)"
  proof -
    from that(1) obtain d where "matmul (empty_w s0) ie = Translation d" ..
    then show ?thesis
      unfolding A by (simp add: rot_block_translated [OF ab])
  qed
  from ie ia A B show ?thesis by blast
qed

theorem rotation_block_of_commit_witness:
  "validate turned_anchor (config_to 3 True True True) (start_state 1) = Inr (''Empty'', ''Armature'', ''Bone'') \<and>
   (2, Mat4 0 0 1 (1 / 2)  1 0 0 2  0 1 0 3  0 0 0 1) \<in> set (commits 1 (run_trace turned_anchor (config_to 3 True True True) (start_state 1))) \<and>
   matrix_inverted turned_anchor (Mat4 0 (- 1) 0 1  1 0 0 0  0 0 1 0  0 0 0 1) =
     Some (Mat4 0 1 0 0  (- 1) 0 0 1  0 0 1 0  0 0 0 1) \<and>
   matrix_inverted turned_anchor (Mat4 2 0 0 0  0 2 0 0  0 0 2 0  0 0 0 1) =
     Some (Mat4 (1 / 2) 0 0 0  0 (1 / 2) 0 0  0 0 (1 / 2) 0  0 0 0 1) \<and>
   matmul (Mat4 0 (- 1) 0 0  1 0 0 0  0 0 1 0  0 0 0 1)
          (Mat4 0 1 0 0  (- 1) 0 0 1  0 0 1 0  0 0 0 1) = Translation (Vector (- 1) 0 0) \<and>
   affine (Mat4 0 0 2 2  2 0 0 4  0 2 0 6  0 0 0 1) \<and>
   rot_block (Mat4 0 0 1 (1 / 2)  1 0 0 2  0 1 0 3  0 0 0 1) =
     rot_block (matmul (Mat4 (1 / 2) 0 0 0  0 (1 / 2) 0 0  0 0 (1 / 2) 0  0 0 0 1)
                       (Mat4 0 0 2 2  2 0 0 4  0 2 0 6  0 0 0 1)) \<and>
   rot_block (Mat4 0 0 1 (1 / 2)  1 0 0 2  0 1 0 3  0 0 0 1) = [0, 0, 1, 1, 0, 0, 0, 1, 0]"
proof -
  let ?arm = "Mat4 2 0 0 0  0 2 0 0  0 0 2 0  0 0 0 1"
  let ?armi = "Mat4 (1 / 2) 0 0 0  0 (1 / 2) 0 0  0 0 (1 / 2) 0  0 0 0 1"
  let ?bone = "Mat4 0 0 2 2  2 0 0 4  0 2 0 6  0 0 0 1"
  let ?e1 = "Mat4 0 (- 1) 0 0  1 0 0 0  0 0 1 0  0 0 0 1"
  let ?e2 = "Mat4 0 (- 1) 0 1  1 0 0 0  0 0 1 0  0 0 0 1"
  let ?e2i = "Mat4 0 1 0 0  (- 1) 0 0 1  0 0 1 0  0 0 0 1"
  let ?ref = "\<lparr>arm_w = ?arm, bone_w = ?bone, empty_w = ?e1\<rparr>"
  let ?smp = "\<lparr>arm_w = ?arm, bone_w = ?bone, empty_w = ?e2\<rparr>"
  let ?m = "Mat4 0 0 1 (1 / 2)  1 0 0 2  0 1 0 3  0 0 0 1"
  have v: "validate turned_anchor (config_to 3 True True True) (start_state 1) = Inr (''Empty'', ''Armature'', ''Bone'')"
    unfolding turned_anchor_def
    by (rule scripted_validate) (simp_all add: config_to_def start_state_def)
  have s0: "fst (sampling turned_anchor (config_to 3 True True True) ''Empty'' ''Armature''
      ''Bone'' (start_state 1)) (frame_current (start_state 1)) = Some ?ref"
    unfolding turned_anchor_def
    by (simp add: scripted_sampling scripted_samples_def config_to_def start_state_def
        matmul_def)
  have s: "fst (sampling turned_anchor (config_to 3 True True True) ''Empty'' ''Armature''
      ''Bone'' (start_state 1)) 2 = Some ?smp"
    unfolding turned_anchor_def
    by (simp add: scripted_sampling scripted_samples_def config_to_def start_state_def
        matmul_def)
  have cm: "(2, ?m) \<in> set (commits 1 (run_trace turned_anchor (config_to 3 True True True) (start_state 1)))"
    unfolding turned_anchor_def
    by (subst scripted_commits)
       (simp_all add: config_to_def start_state_def upto_1_3 scripted_samples_def mat_defs)
  have ie: "matrix_inverted turned_anchor ?e2 = Some ?e2i"
    and ia: "matrix_inverted turned_anchor ?arm = Some ?armi"
    by (simp_all add: turned_anchor_def scripted_host_simps mat_defs)
  have tr: "matmul ?e1 ?e2i = Translation (Vector (- 1) 0 0)"
    by (simp add: matmul_def Translation_def)
  have ab: "affine ?bone"
    by (simp add: affine_def)
  from rotation_block_of_commit [OF v s0 s cm] ie ia
  have "(\<exists>d. matmul (empty_w ?ref) ?e2i = Translation d) \<and> affine (bone_w ?smp) \<longrightarrow>
      rot_block ?m = rot_block (matmul ?armi (bone_w ?smp))"
    by auto
  with tr ab have r: "rot_block ?m = rot_block (matmul ?armi ?bone)"
    by auto
  have q: "rot_block ?m = [0, 0, 1, 1, 0, 0, 0, 1, 0]"
    by (simp add: rot_block_def)
  show ?thesis
    by (rule conjI [OF v conjI [OF cm conjI [OF ie conjI [OF ia conjI [OF tr conjI [OF ab
          conjI [OF r q]]]]]]])
qed

end
